theory Spec2Isabelle
  imports Complex_Main "HOL-Library.Word"
begin

section \<open>Python values and the primitives the service relies on\<close>

text \<open>
  The service (\<^verbatim>\<open>src/azure_openai_service.py\<close>) is a class with a constructor, two
  prompt builders, a fallback builder and two calls to a hosted model. Strings are
  \<^typ>\<open>string\<close>: the only characters the code searches for are the braces, a single
  byte each in UTF-8 and never part of a longer sequence, so slicing at their positions
  cuts the same text whether positions count bytes or code points. The calls to
  \<^verbatim>\<open>print\<close> write to the console only and are left out.
\<close>

subsection \<open>Values\<close>

text \<open>
  What \<^verbatim>\<open>json.loads\<close> returns and what the service returns to its caller: a Python
  dictionary is an association list in insertion order. A float is kept as the bit
  pattern of its double; the service never looks inside one.
\<close>

datatype json =
    JNull
  | JBool bool
  | JInt int
  | JFloat "64 word"
  | JStr string
  | JList "json list"
  | JDict "(string \<times> json) list"

text \<open>The values found in an image dictionary: strings, and the integer \<^verbatim>\<open>size\<close>.\<close>

datatype pyval = PStr string | PInt int

subsection \<open>Exceptions\<close>

text \<open>
  An exception is its class, the text \<^verbatim>\<open>str(error)\<close> gives, and the exception that
  was being handled when it was raised (Python stores it as \<^verbatim>\<open>__context__\<close>). Every
  class here derives from \<^verbatim>\<open>Exception\<close>; \<open>OtherError\<close> stands for any further
  such class raised inside a library, with its name.
\<close>

datatype exn_class =
    ValueError
  | Exception
  | IndexError
  | KeyError
  | JSONDecodeError
  | OtherError string

datatype exn = Exn (exn_type: exn_class) (exn_str: string) (exn_context: "exn option")

subsection \<open>\<^verbatim>\<open>str\<close> of an integer\<close>

function str_nat :: "nat \<Rightarrow> string" where
  "str_nat n =
     (if n < 10 then [''0123456789'' ! n]
      else str_nat (n div 10) @ [''0123456789'' ! (n mod 10)])"
  by pat_completeness auto
termination
  by (relation "measure id") auto

definition str_int :: "int \<Rightarrow> string" where
  "str_int i = (if i < 0 then CHR ''-'' # str_nat (nat (- i)) else str_nat (nat i))"

text \<open>A value substituted into an f-string.\<close>

fun format_value :: "pyval \<Rightarrow> string" where
  "format_value (PStr s) = s"
| "format_value (PInt i) = str_int i"

subsection \<open>\<^verbatim>\<open>str.find\<close>, \<^verbatim>\<open>str.rfind\<close>, slicing and \<^verbatim>\<open>in\<close>\<close>

text \<open>Both searches return \<open>-1\<close> when the character does not occur.\<close>

definition str_find :: "string \<Rightarrow> char \<Rightarrow> int" where
  "str_find s c =
     (if c \<in> set s then int (length (takeWhile (\<lambda>x. x \<noteq> c) s)) else - 1)"

definition str_rfind :: "string \<Rightarrow> char \<Rightarrow> int" where
  "str_rfind s c =
     (if c \<in> set s
      then int (length s) - 1 - int (length (takeWhile (\<lambda>x. x \<noteq> c) (rev s)))
      else - 1)"

text \<open>
  \<^verbatim>\<open>s[start:stop]\<close>: a negative bound counts from the end, both bounds are clamped to
  \<open>0 .. len(s)\<close>, and a stop at or before the start gives the empty string.
\<close>

definition slice_bound :: "int \<Rightarrow> int \<Rightarrow> int" where
  "slice_bound n i = (if i < 0 then max 0 (n + i) else min i n)"

definition str_slice :: "string \<Rightarrow> int \<Rightarrow> int \<Rightarrow> string" where
  "str_slice s start stop =
     (let n = int (length s);
          lo = slice_bound n start;
          hi = slice_bound n stop
      in take (nat (hi - lo)) (drop (nat lo) s))"

text \<open>\<^verbatim>\<open>sub in s\<close> for strings.\<close>

fun str_in :: "string \<Rightarrow> string \<Rightarrow> bool" where
  "str_in sub [] = (sub = [])"
| "str_in sub (c # s) = (take (length sub) (c # s) = sub \<or> str_in sub s)"

text \<open>Truthiness of an optional string: \<^verbatim>\<open>None\<close> and \<^verbatim>\<open>''\<close> are false.\<close>

definition truthy :: "string option \<Rightarrow> bool" where
  "truthy v = (case v of None \<Rightarrow> False | Some s \<Rightarrow> s \<noteq> [])"

text \<open>\<^verbatim>\<open>d[key]\<close> on a dictionary; the text of a \<^verbatim>\<open>KeyError\<close> is the quoted key.\<close>

definition getitem :: "(string \<rightharpoonup> pyval) \<Rightarrow> string \<Rightarrow> exn + pyval" where
  "getitem d key =
     (case d key of
        None \<Rightarrow> Inl (Exn KeyError ([CHR 0x27] @ key @ [CHR 0x27]) None)
      | Some v \<Rightarrow> Inr v)"

section \<open>The hosted model's interface\<close>

text \<open>
  A chat completion request as the service builds it, and the parts of a response it
  reads. \<open>resp_error\<close> is \<open>None\<close> when the response has no \<^verbatim>\<open>error\<close> attribute or
  a false one, and otherwise the text the attribute formats to; \<open>resp_choices\<close> holds
  \<^verbatim>\<open>message.content\<close> of each choice, \<open>None\<close> for an absent content. The
  temperature is the number its literal in the source denotes.
\<close>

datatype content_part =
    TextPart string
  | ImageUrlPart (url: string) (detail: string)

datatype message_content = Plain string | Parts "content_part list"

record message =
  msg_role :: string
  msg_content :: message_content

record request =
  messages :: "message list"
  max_tokens :: int
  temperature :: real
  model :: string

record response =
  resp_error :: "string option"
  resp_choices :: "string option list"

text \<open>
  \<^verbatim>\<open>client.chat.completions.create\<close>: it answers a request with a response or raises.
\<close>

type_synonym client = "request \<Rightarrow> exn + response"

record service =
  endpoint :: string
  api_key :: string
  deployment :: string
  api_version :: string
  client :: client

text \<open>What a call did: the requests it sent to the model, and what it returned or raised.\<close>

record 'a outcome =
  calls :: "request list"
  result :: "exn + 'a"

type_synonym image = "string \<rightharpoonup> pyval"

text \<open>The argument of the analysis: a list of images, or something that is not a list.\<close>

datatype image_data = Images "image list" | NotAList image

definition nl :: string where
  "nl = [CHR 0x0A]"

section \<open>The service\<close>

subsection \<open>Construction\<close>

text \<open>
  \<^verbatim>\<open>__init__\<close> reads three environment variables (\<open>getenv\<close> gives \<open>None\<close> for an unset
  one), checks them and builds the client. The library's client constructor of line 24
  is called outside any \<^verbatim>\<open>try\<close>: it returns a client or raises, and what it raises
  leaves \<^verbatim>\<open>__init__\<close> unchanged.
\<close>

definition init ::
  "(string \<Rightarrow> string option) \<Rightarrow> (string \<Rightarrow> string \<Rightarrow> string \<Rightarrow> exn + client)
     \<Rightarrow> exn + service" where
  "init getenv AzureOpenAI =
     (let env_endpoint = getenv ''4.1_OPENAI_ENDPOINT'';
          env_api_key = getenv ''4.1_OPENAI_API_KEY'';
          env_deployment = getenv ''4.1_OPENAI_DEPLOYMENT_NAME'';
          version = ''2024-04-01-preview''
      in if \<not> list_all truthy [env_endpoint, env_api_key, env_deployment]
         then Inl (Exn ValueError
                ''Missing Azure OpenAI configuration. Please check your .env file.'' None)
         else (case AzureOpenAI (the env_endpoint) (the env_api_key) version of
                 Inl e \<Rightarrow> Inl e
               | Inr built \<Rightarrow>
                   Inr \<lparr>endpoint = the env_endpoint, api_key = the env_api_key,
                        deployment = the env_deployment, api_version = version,
                        client = built\<rparr>))"

subsection \<open>Prompts\<close>

definition get_system_prompt :: "int \<Rightarrow> string" where
  \<open>get_system_prompt image_count = concat
     [
      ''You are an expert insurance underwriter specializing in building risk assessment. '', nl,
      ''You are analyzing '', str_int image_count, '' image'', (if image_count > 1 then ''s'' else ''''), '' of the same building from different angles/perspectives to provide a comprehensive risk assessment.'', nl,
      nl,
      (if image_count > 1 then ''Consider all images together to form a complete picture of the building and its risks. Look for consistent patterns across images and note any contradictions or additional context provided by multiple viewpoints.'' else ''Analyze the provided building image and identify potential risks.''), nl,
      nl,
      ''Focus on these key risk categories:'', nl,
      nl,
      ''**Fire & Life Safety Risks:**'', nl,
      ''- Emergency exits (number, location, width, accessibility)'', nl,
      ''- Exit routes and egress paths'', nl,
      ''- Fire suppression systems (sprinklers, extinguishers)'', nl,
      ''- Fire-resistant materials and construction'', nl,
      ''- Smoke detection systems'', nl,
      nl,
      ''**Structural & Construction Risks:**'', nl,
      ''- Building age and condition indicators'', nl,
      ''- Construction materials (wood, steel, concrete)'', nl,
      ''- Roof condition and materials'', nl,
      ''- Foundation and structural integrity'', nl,
      ''- Seismic vulnerabilities'', nl,
      nl,
      ''**Security Risks:**'', nl,
      ''- Access control and entry points'', nl,
      ''- Lighting adequacy'', nl,
      ''- Perimeter security'', nl,
      ''- Surveillance coverage'', nl,
      nl,
      ''**Water Damage & Flood Risks:**'', nl,
      ''- Proximity to water sources'', nl,
      ''- Drainage systems'', nl,
      ''- Below-grade areas'', nl,
      ''- Plumbing condition'', nl,
      nl,
      ''**Occupancy & Usage Risks:**'', nl,
      ''- Occupancy load vs exit capacity'', nl,
      ''- Hazardous activities or storage'', nl,
      ''- Mixed-use considerations'', nl,
      ''- Accessibility compliance'', nl,
      nl,
      ''**Environmental & Location Risks:**'', nl,
      ''- Surrounding hazards'', nl,
      ''- Natural disaster exposure'', nl,
      ''- Utility infrastructure proximity'', nl,
      nl,
      ''Provide your analysis in the following JSON format:'', nl,
      ''{'', nl,
      ''  "overall_risk_level": "LOW|MEDIUM|HIGH",'', nl,
      ''  "risk_score": 1-10,'', nl,
      ''  "images_analyzed": '', str_int image_count, '','', nl,
      ''  "key_findings": ["finding1", "finding2", "finding3"],'', nl,
      ''  "detailed_assessment": {'', nl,
      ''    "fire_safety": {'', nl,
      ''      "risk_level": "LOW|MEDIUM|HIGH",'', nl,
      ''      "observations": ["observation1", "observation2"],'', nl,
      ''      "concerns": ["concern1", "concern2"]'', nl,
      ''    },'', nl,
      ''    "structural": {'', nl,
      ''      "risk_level": "LOW|MEDIUM|HIGH",'', nl,
      ''      "observations": ["observation1", "observation2"],'', nl,
      ''      "concerns": ["concern1", "concern2"]'', nl,
      ''    },'', nl,
      ''    "security": {'', nl,
      ''      "risk_level": "LOW|MEDIUM|HIGH",'', nl,
      ''      "observations": ["observation1", "observation2"],'', nl,
      ''      "concerns": ["concern1", "concern2"]'', nl,
      ''    },'', nl,
      ''    "water_damage": {'', nl,
      ''      "risk_level": "LOW|MEDIUM|HIGH",'', nl,
      ''      "observations": ["observation1", "observation2"],'', nl,
      ''      "concerns": ["concern1", "concern2"]'', nl,
      ''    },'', nl,
      ''    "environmental": {'', nl,
      ''      "risk_level": "LOW|MEDIUM|HIGH",'', nl,
      ''      "observations": ["observation1", "observation2"],'', nl,
      ''      "concerns": ["concern1", "concern2"]'', nl,
      ''    }'', nl,
      ''  },'', nl,
      ''  "recommendations": ["recommendation1", "recommendation2", "recommendation3"],'', nl,
      ''  "additional_information_needed": ["info1", "info2"],'', nl,
      ''  "image_analysis_summary": "'', (if image_count > 1 then ''Summary of what was observed across all images and how they complement each other'' else ''Summary of the single image analysis''), ''"'', nl,
      ''}'', nl,
      nl,
      ''Be thorough but realistic in your assessment. Only identify risks that are clearly visible or reasonably inferred from the images. '', (if image_count > 1 then ''When analyzing multiple images, provide insights that benefit from having multiple perspectives of the same building.'' else '''')
     ]\<close>

definition get_user_prompt :: "int \<Rightarrow> string" where
  "get_user_prompt image_count =
     (if image_count > 1
      then ''Please analyze these '' @ str_int image_count @ '' building images for comprehensive insurance underwriting risk assessment. These images show different angles and aspects of the same building. Provide a thorough evaluation considering all visible risk factors across all images.''
      else ''Please analyze this building image for insurance underwriting risk assessment. Provide a comprehensive evaluation of all visible risk factors.'')"

subsection \<open>The fallback response\<close>

definition create_fallback_response :: "string \<Rightarrow> int \<Rightarrow> json" where
  "create_fallback_response content image_count = JDict
     [(''overall_risk_level'', JStr ''MEDIUM''),
      (''risk_score'', JInt 5),
      (''images_analyzed'', JInt image_count),
      (''key_findings'', JList [JStr ''Analysis completed - see detailed response'']),
      (''raw_response'', JStr content),
      (''detailed_assessment'', JDict
         [(''fire_safety'', JDict [(''risk_level'', JStr ''MEDIUM''), (''observations'', JList []), (''concerns'', JList [])]),
          (''structural'', JDict [(''risk_level'', JStr ''MEDIUM''), (''observations'', JList []), (''concerns'', JList [])]),
          (''security'', JDict [(''risk_level'', JStr ''MEDIUM''), (''observations'', JList []), (''concerns'', JList [])]),
          (''water_damage'', JDict [(''risk_level'', JStr ''MEDIUM''), (''observations'', JList []), (''concerns'', JList [])]),
          (''environmental'', JDict [(''risk_level'', JStr ''MEDIUM''), (''observations'', JList []), (''concerns'', JList [])])]),
      (''recommendations'', JList [JStr ''Review detailed analysis'']),
      (''additional_information_needed'', JList []),
      (''image_analysis_summary'', JStr (''Analysis of '' @ str_int image_count @ '' building image''
          @ (if image_count > 1 then ''s'' else '''') @ '' completed''))]"

subsection \<open>The analysis\<close>

text \<open>
  The loop of lines 56 to 63: one image block per image, appended in order. Reading a
  key the image lacks raises, the type before the payload.
\<close>

fun append_images :: "content_part list \<Rightarrow> image list \<Rightarrow> exn + content_part list" where
  "append_images user_content [] = Inr user_content"
| "append_images user_content (img # images) =
     (case getitem img ''type'' of
        Inl e \<Rightarrow> Inl e
      | Inr t \<Rightarrow>
          (case getitem img ''base64'' of
             Inl e \<Rightarrow> Inl e
           | Inr b \<Rightarrow>
               append_images
                 (user_content @
                    [ImageUrlPart (''data:'' @ format_value t @ '';base64,'' @ format_value b) ''high''])
                 images))"

text \<open>Line 84: the text from the first opening brace to the last closing one.\<close>

definition json_match :: "string \<Rightarrow> string" where
  "json_match content =
     str_slice content (str_find content CHR ''{'') (str_rfind content CHR ''}'' + 1)"

text \<open>
  Lines 82 to 91. \<open>loads\<close> is \<^verbatim>\<open>json.loads\<close>; only its \<^verbatim>\<open>JSONDecodeError\<close> is
  caught here.
\<close>

definition parse_content :: "(string \<Rightarrow> exn + json) \<Rightarrow> string \<Rightarrow> int \<Rightarrow> exn + json" where
  "parse_content loads content image_count =
     (if json_match content \<noteq> []
      then (case loads (json_match content) of
              Inr parsed \<Rightarrow> Inr parsed
            | Inl parse_error \<Rightarrow>
                if exn_type parse_error = JSONDecodeError
                then Inr (create_fallback_response content image_count)
                else Inl parse_error)
      else Inr (create_fallback_response content image_count))"

text \<open>Lines 75 to 91: what is done with a response once the model has answered.\<close>

definition read_response :: "(string \<Rightarrow> exn + json) \<Rightarrow> response \<Rightarrow> int \<Rightarrow> exn + json" where
  "read_response loads resp image_count =
     (case resp_error resp of
        Some e \<Rightarrow> Inl (Exn Exception (''Azure OpenAI API Error: '' @ e) None)
      | None \<Rightarrow>
          (case resp_choices resp of
             [] \<Rightarrow> Inl (Exn IndexError ''list index out of range'' None)
           | choice # _ \<Rightarrow>
               if \<not> truthy choice
               then Inl (Exn Exception ''No response content received from Azure OpenAI'' None)
               else parse_content loads (the choice) image_count))"

text \<open>Line 44: an argument that is not a list becomes a list of one element.\<close>

definition normalize_input :: "image_data \<Rightarrow> image list" where
  "normalize_input data = (case data of Images xs \<Rightarrow> xs | NotAList x \<Rightarrow> [x])"

text \<open>Lines 65 to 73: the arguments of the call to the model.\<close>

definition chat_request :: "service \<Rightarrow> int \<Rightarrow> content_part list \<Rightarrow> request" where
  "chat_request svc image_count user_content =
     \<lparr>messages =
        [\<lparr>msg_role = ''system'', msg_content = Plain (get_system_prompt image_count)\<rparr>,
         \<lparr>msg_role = ''user'', msg_content = Parts user_content\<rparr>],
      max_tokens = (if image_count > 1 then 3000 else 2000),
      temperature = 0.3,
      model = deployment svc\<rparr>"

text \<open>
  The body of the outer \<^verbatim>\<open>try\<close>, lines 43 to 91. No request is sent when building
  the user message raises.
\<close>

definition analyze_attempt ::
  "(string \<Rightarrow> exn + json) \<Rightarrow> service \<Rightarrow> image_data \<Rightarrow> json outcome" where
  "analyze_attempt loads svc data =
     (let images = normalize_input data;
          image_count = int (length images)
      in case append_images [TextPart (get_user_prompt image_count)] images of
           Inl e \<Rightarrow> \<lparr>calls = [], result = Inl e\<rparr>
         | Inr user_content \<Rightarrow>
             (let req = chat_request svc image_count user_content
              in \<lparr>calls = [req],
                  result = (case client svc req of
                              Inl e \<Rightarrow> Inl e
                            | Inr resp \<Rightarrow> read_response loads resp image_count)\<rparr>))"

text \<open>
  \<^verbatim>\<open>analyze_building_risks\<close>: whatever the body raises is caught at line 93 and a new
  \<^verbatim>\<open>Exception\<close> is raised from inside the handler.
\<close>

definition analyze_building_risks ::
  "(string \<Rightarrow> exn + json) \<Rightarrow> service \<Rightarrow> image_data \<Rightarrow> json outcome" where
  "analyze_building_risks loads svc data =
     (let r = analyze_attempt loads svc data
      in case result r of
           Inl error \<Rightarrow>
             r\<lparr>result := Inl (Exn Exception (''Risk analysis failed: '' @ exn_str error) (Some error))\<rparr>
         | Inr assessment \<Rightarrow> r)"

subsection \<open>The health check\<close>

definition health_request :: "service \<Rightarrow> request" where
  "health_request svc =
     \<lparr>messages =
        [\<lparr>msg_role = ''system'', msg_content = Plain ''You are a helpful assistant.''\<rparr>,
         \<lparr>msg_role = ''user'',
          msg_content = Plain ''Hello, please respond with 'OK' to confirm connectivity.''\<rparr>],
      max_tokens = 10,
      temperature = 0,
      model = deployment svc\<rparr>"

text \<open>The body of the \<^verbatim>\<open>try\<close>, lines 218 to 228.\<close>

definition health_attempt :: "service \<Rightarrow> exn + bool" where
  "health_attempt svc =
     (case client svc (health_request svc) of
        Inl e \<Rightarrow> Inl e
      | Inr resp \<Rightarrow>
          (case resp_choices resp of
             [] \<Rightarrow> Inl (Exn IndexError ''list index out of range'' None)
           | choice # _ \<Rightarrow>
               Inr (str_in ''OK'' (if truthy choice then the choice else ''''))))"

definition health_check :: "service \<Rightarrow> bool outcome" where
  "health_check svc =
     \<lparr>calls = [health_request svc],
      result = (case health_attempt svc of Inl error \<Rightarrow> Inr False | Inr ok \<Rightarrow> Inr ok)\<rparr>"

section \<open>Notions used to state the properties\<close>

text \<open>\<^verbatim>\<open>d.get(key)\<close> and \<^verbatim>\<open>list(d)\<close> on a returned dictionary.\<close>

fun dict_get :: "json \<Rightarrow> string \<Rightarrow> json option" where
  "dict_get (JDict items) key = map_of items key"
| "dict_get _ key = None"

fun dict_keys :: "json \<Rightarrow> string list" where
  "dict_keys (JDict items) = map fst items"
| "dict_keys _ = []"

text \<open>\<open>loads\<close> raised a \<^verbatim>\<open>JSONDecodeError\<close>: the text is not JSON.\<close>

definition decode_error :: "exn + json \<Rightarrow> bool" where
  "decode_error r = (case r of Inl e \<Rightarrow> exn_type e = JSONDecodeError | Inr parsed \<Rightarrow> False)"

text \<open>
  An image as the docstring of the analysis describes it has the two keys the loop
  reads; \<open>image_block\<close> is the block of the user message made from it.
\<close>

definition has_keys :: "image \<Rightarrow> bool" where
  "has_keys img = (img ''type'' \<noteq> None \<and> img ''base64'' \<noteq> None)"

definition image_block :: "image \<Rightarrow> content_part" where
  "image_block img =
     ImageUrlPart
       (''data:'' @ format_value (the (img ''type'')) @ '';base64,'' @ format_value (the (img ''base64'')))
       ''high''"

text \<open>The number of images the analysis works with, as line 45 computes it.\<close>

definition image_count :: "image_data \<Rightarrow> int" where
  "image_count data = int (length (normalize_input data))"

text \<open>The exception line 22 raises.\<close>

definition configuration_error :: exn where
  "configuration_error =
     Exn ValueError ''Missing Azure OpenAI configuration. Please check your .env file.'' None"

text \<open>The exception line 95 raises while \<open>cause\<close> is being handled.\<close>

definition analysis_failed :: "exn \<Rightarrow> exn" where
  "analysis_failed cause = Exn Exception (''Risk analysis failed: '' @ exn_str cause) (Some cause)"

subsection \<open>Test doubles\<close>

text \<open>
  A service whose client gives the same answer to every request, a client constructor
  without a network that refuses an endpoint with a line break in it, an image as the
  application builds it, and a \<open>loads\<close> that knows two documents and rejects every
  other text. \<open>limited_loads\<close> also has the parser's recursion limit: on an object
  that opens 1100 arrays and closes none it raises \<^verbatim>\<open>RecursionError\<close>, as
  \<^verbatim>\<open>json.loads\<close> does with the interpreter's default limit of 1000.
\<close>

definition stub_service :: "exn + response \<Rightarrow> service" where
  "stub_service answer =
     \<lparr>endpoint = ''https://example.openai.azure.com/'', api_key = ''secret'',
      deployment = ''gpt-4.1'', api_version = ''2024-04-01-preview'',
      client = (\<lambda>req. answer)\<rparr>"

definition offline :: "string \<Rightarrow> string \<Rightarrow> string \<Rightarrow> exn + client" where
  "offline azure_endpoint key version =
     (if CHR 0x0A \<in> set azure_endpoint
      then Inl (Exn (OtherError ''InvalidURL'')
             ''Invalid non-printable ASCII character in URL'' None)
      else Inr (\<lambda>req. Inl (Exn (OtherError ''APIConnectionError'') ''Connection error.'' None)))"

definition reply :: "string \<Rightarrow> exn + response" where
  "reply t = Inr \<lparr>resp_error = None, resp_choices = [Some t]\<rparr>"

definition png :: image where
  "png = [''base64'' \<mapsto> PStr ''iVBORw0KGgo='', ''type'' \<mapsto> PStr ''image/png'',
          ''name'' \<mapsto> PStr ''front.png'', ''size'' \<mapsto> PInt 8]"

definition stub_loads :: "string \<Rightarrow> exn + json" where
  \<open>stub_loads s =
     (if s = ''{"overall_risk_level":"HIGH","risk_score":8,"images_analyzed":3}''
      then Inr (JDict [(''overall_risk_level'', JStr ''HIGH''), (''risk_score'', JInt 8),
                       (''images_analyzed'', JInt 3)])
      else if s = ''{}'' then Inr (JDict [])
      else Inl (Exn JSONDecodeError ''Expecting value: line 1 column 1 (char 0)'' None))\<close>

definition deeply_nested :: string where
  \<open>deeply_nested = ''{"a":'' @ replicate 1100 (CHR ''['') @ ''}''\<close>

definition recursion_error :: exn where
  "recursion_error =
     Exn (OtherError ''RecursionError'')
       ''maximum recursion depth exceeded while decoding a JSON array from a unicode string''
       None"

definition limited_loads :: "string \<Rightarrow> exn + json" where
  "limited_loads s = (if s = deeply_nested then Inl recursion_error else stub_loads s)"

section \<open>Facts about the primitives\<close>

lemma str_find_first: "c \<notin> set pre \<Longrightarrow> str_find (pre @ c # rest) c = int (length pre)"
proof -
  assume a: "c \<notin> set pre"
  then have "takeWhile (\<lambda>x. x \<noteq> c) (pre @ c # rest) = pre"
    by (induction pre) auto
  then show ?thesis by (simp add: str_find_def)
qed

lemma str_rfind_last: "c \<notin> set post \<Longrightarrow> str_rfind (pre @ c # post) c = int (length pre)"
proof -
  assume a: "c \<notin> set post"
  have "takeWhile (\<lambda>x. x \<noteq> c) (ys @ c # zs) = ys" if "c \<notin> set ys" for ys zs :: string
    using that by (induction ys) auto
  from this [of "rev post" "rev pre"] a
  have "takeWhile (\<lambda>x. x \<noteq> c) (rev (pre @ c # post)) = rev post"
    by simp
  then show ?thesis by (simp add: str_rfind_def)
qed

lemma str_slice_inside:
  "str_slice (pre @ mid @ post) (int (length pre)) (int (length pre + length mid)) = mid"
  by (simp add: str_slice_def slice_bound_def Let_def)

lemma json_match_recovers:
  assumes "CHR ''{'' \<notin> set before" and "CHR ''}'' \<notin> set after"
  shows "json_match (before @ CHR ''{'' # body @ CHR ''}'' # after) = CHR ''{'' # body @ [CHR ''}'']"
proof -
  let ?obj = "CHR ''{'' # body @ [CHR ''}'']"
  have f: "str_find (before @ CHR ''{'' # body @ CHR ''}'' # after) CHR ''{'' = int (length before)"
    using assms(1) by (rule str_find_first)
  have "str_rfind ((before @ CHR ''{'' # body) @ CHR ''}'' # after) CHR ''}'' = int (length (before @ CHR ''{'' # body))"
    using assms(2) by (rule str_rfind_last)
  then have r: "str_rfind (before @ CHR ''{'' # body @ CHR ''}'' # after) CHR ''}'' + 1 = int (length before + length ?obj)"
    by simp
  have "str_slice (before @ ?obj @ after) (int (length before)) (int (length before + length ?obj)) = ?obj"
    by (rule str_slice_inside)
  then show ?thesis
    unfolding json_match_def f r by simp
qed

lemma json_match_no_open:
  assumes "CHR ''{'' \<notin> set t"
  shows "json_match t = [] \<or> json_match t = ''}''"
proof (cases "CHR ''}'' \<in> set t")
  case False
  then show ?thesis using assms
    by (simp add: json_match_def str_find_def str_rfind_def str_slice_def slice_bound_def Let_def)
next
  case True
  then obtain pre post where t: "t = pre @ CHR ''}'' # post" and "CHR ''}'' \<notin> set post"
    by (auto dest: split_list_last)
  then have r: "str_rfind t CHR ''}'' = int (length pre)"
    by (simp add: str_rfind_last)
  have f: "str_find t CHR ''{'' = - 1"
    using assms by (simp add: str_find_def)
  show ?thesis
  proof (cases post)
    case Nil
    then show ?thesis using t
      unfolding json_match_def f r by (simp add: str_slice_def slice_bound_def Let_def)
  next
    case (Cons a list)
    then show ?thesis using t
      unfolding json_match_def f r by (simp add: str_slice_def slice_bound_def Let_def)
  qed
qed

lemma take_is_prefix: "take (length sub) s = sub \<longleftrightarrow> (\<exists>after. s = sub @ after)"
proof
  assume "take (length sub) s = sub"
  then have "s = sub @ drop (length sub) s"
    by (metis append_take_drop_id)
  then show "\<exists>after. s = sub @ after" ..
next
  assume "\<exists>after. s = sub @ after"
  then show "take (length sub) s = sub" by auto
qed

lemma str_in_iff: "str_in sub s \<longleftrightarrow> (\<exists>before after. s = before @ sub @ after)"
proof (induction s)
  case Nil
  show ?case by auto
next
  case (Cons c s)
  have "(\<exists>before after. c # s = before @ sub @ after) \<longleftrightarrow>
        (\<exists>after. c # s = sub @ after) \<or> (\<exists>before after. s = before @ sub @ after)"
  proof
    assume "\<exists>before after. c # s = before @ sub @ after"
    then obtain before after where d: "c # s = before @ sub @ after" by blast
    show "(\<exists>after. c # s = sub @ after) \<or> (\<exists>before after. s = before @ sub @ after)"
    proof (cases before)
      case Nil
      with d show ?thesis by auto
    next
      case (Cons b bs)
      with d have "s = bs @ sub @ after" by simp
      then show ?thesis by blast
    qed
  next
    assume "(\<exists>after. c # s = sub @ after) \<or> (\<exists>before after. s = before @ sub @ after)"
    then show "\<exists>before after. c # s = before @ sub @ after"
    proof
      assume "\<exists>after. c # s = sub @ after"
      then obtain after where "c # s = [] @ sub @ after" by auto
      then show ?thesis by blast
    next
      assume "\<exists>before after. s = before @ sub @ after"
      then obtain before after where "c # s = (c # before) @ sub @ after" by auto
      then show ?thesis by blast
    qed
  qed
  with Cons.IH show ?case
    by (simp only: str_in.simps take_is_prefix)
qed

lemma str_int_1: "str_int 1 = ''1''"
  by code_simp

text \<open>Read back digit by digit, the text of a number is the number.\<close>

lemma digit_char:
  assumes "d < 10"
  shows "of_char (''0123456789'' ! d) = 48 + d"
proof -
  from assms have "d \<in> {0, 1, 2, 3, 4, 5, 6, 7, 8, 9}"
    by auto
  then show ?thesis
    by (auto simp: numeral_eq_Suc)
qed

lemma str_nat_decimal:
  "foldl (\<lambda>value c. 10 * value + (of_char c - 48)) 0 (str_nat n) = n"
proof (induction n rule: str_nat.induct)
  case (1 n)
  show ?case
  proof (cases "n < 10")
    case True
    then show ?thesis
      by (subst str_nat.simps) (simp add: digit_char)
  next
    case False
    with 1 have "foldl (\<lambda>value c. 10 * value + (of_char c - 48)) 0 (str_nat (n div 10)) = n div 10"
      by simp
    moreover have "n mod 10 < 10" by simp
    ultimately show ?thesis
      using False by (subst str_nat.simps) (simp add: digit_char)
  qed
qed

section \<open>Facts about the analysis\<close>

lemma analyze_calls:
  "calls (analyze_building_risks loads svc data) = calls (analyze_attempt loads svc data)"
  by (simp add: analyze_building_risks_def Let_def split: sum.split)

lemma analyze_result:
  "result (analyze_building_risks loads svc data) =
     (case result (analyze_attempt loads svc data) of
        Inl cause \<Rightarrow> Inl (analysis_failed cause)
      | Inr assessment \<Rightarrow> Inr assessment)"
  by (simp add: analyze_building_risks_def analysis_failed_def Let_def split: sum.split)

lemma attempt_sent:
  assumes "calls (analyze_attempt loads svc data) = [req]"
  shows "result (analyze_attempt loads svc data) =
           (case client svc req of
              Inl e \<Rightarrow> Inl e
            | Inr resp \<Rightarrow> read_response loads resp (int (length (normalize_input data))))"
proof (cases "append_images [TextPart (get_user_prompt (int (length (normalize_input data))))]
                (normalize_input data)")
  case (Inl e)
  with assms show ?thesis
    by (simp add: analyze_attempt_def Let_def)
next
  case (Inr user_content)
  with assms have "req = chat_request svc (int (length (normalize_input data))) user_content"
    by (simp add: analyze_attempt_def Let_def)
  with Inr show ?thesis
    by (simp add: analyze_attempt_def Let_def)
qed

lemma append_images_has_keys:
  "list_all has_keys images \<Longrightarrow>
     append_images user_content images = Inr (user_content @ map image_block images)"
  by (induction images arbitrary: user_content)
     (auto simp: has_keys_def image_block_def getitem_def)

lemma append_images_raises:
  "append_images user_content images = Inl e \<Longrightarrow> \<not> list_all has_keys images"
  using append_images_has_keys by fastforce

lemma attempt_calls_cases:
  "calls (analyze_attempt loads svc data) = [] \<or>
   (\<exists>req. calls (analyze_attempt loads svc data) = [req])"
  by (simp add: analyze_attempt_def Let_def split: sum.splits)

lemma calls_has_keys:
  assumes "list_all has_keys (normalize_input data)"
  shows "calls (analyze_building_risks loads svc data) =
     [chat_request svc (int (length (normalize_input data)))
        (TextPart (get_user_prompt (int (length (normalize_input data))))
           # map image_block (normalize_input data))]"
  using append_images_has_keys [OF assms]
  by (simp add: analyze_calls analyze_attempt_def Let_def)

lemma has_keys_png: "has_keys png"
  by (simp add: has_keys_def png_def)

lemma normalize_input_list: "normalize_input (Images images) = images"
  by (simp add: normalize_input_def)

lemma image_count_list: "image_count (Images images) = int (length images)"
  by (simp add: image_count_def normalize_input_def)

lemma result_sent:
  assumes "calls (analyze_building_risks loads svc data) = [req]"
  shows "result (analyze_building_risks loads svc data) =
     (case client svc req of
        Inl cause \<Rightarrow> Inl (analysis_failed cause)
      | Inr resp \<Rightarrow>
          (case read_response loads resp (image_count data) of
             Inl cause \<Rightarrow> Inl (analysis_failed cause)
           | Inr assessment \<Rightarrow> Inr assessment))"
proof -
  have "result (analyze_attempt loads svc data) =
      (case client svc req of Inl e \<Rightarrow> Inl e
       | Inr resp \<Rightarrow> read_response loads resp (int (length (normalize_input data))))"
    using assms by (simp add: analyze_calls attempt_sent)
  then show ?thesis
    by (simp add: analyze_result image_count_def split: sum.splits)
qed

lemma raised_is_wrapped:
  "result (analyze_building_risks loads svc data) = Inl e \<Longrightarrow>
     \<exists>cause. e = analysis_failed cause \<and> result (analyze_attempt loads svc data) = Inl cause"
  by (auto simp: analyze_result split: sum.splits)

lemma result_answered:
  assumes sent: "calls (analyze_building_risks loads svc data) = [req]"
    and answered: "client svc req = Inr resp"
    and no_error: "resp_error resp = None"
    and content: "resp_choices resp = Some content # others"
    and nonempty: "content \<noteq> []"
  shows "result (analyze_building_risks loads svc data) =
     (case parse_content loads content (image_count data) of
        Inl cause \<Rightarrow> Inl (analysis_failed cause)
      | Inr assessment \<Rightarrow> Inr assessment)"
proof -
  have "read_response loads resp n = parse_content loads content n" for n
    by (simp add: read_response_def no_error content nonempty truthy_def)
  moreover have "result (analyze_attempt loads svc data) =
      (case client svc req of Inl e \<Rightarrow> Inl e
       | Inr resp \<Rightarrow> read_response loads resp (int (length (normalize_input data))))"
    using sent by (simp add: analyze_calls attempt_sent)
  ultimately show ?thesis
    by (simp add: answered analyze_result image_count_def)
qed

lemma parse_content_decode_error:
  "decode_error (loads (json_match content)) \<Longrightarrow>
     parse_content loads content n = Inr (create_fallback_response content n)"
  by (auto simp: parse_content_def decode_error_def split: sum.splits)

lemma parse_content_no_open:
  assumes "CHR ''{'' \<notin> set content" and "decode_error (loads ''}'')"
  shows "parse_content loads content n = Inr (create_fallback_response content n)"
proof -
  from assms(1) have "json_match content = [] \<or> json_match content = ''}''"
    by (rule json_match_no_open)
  then show ?thesis
  proof
    assume "json_match content = []"
    then show ?thesis by (simp add: parse_content_def)
  next
    assume "json_match content = ''}''"
    with assms(2) have "decode_error (loads (json_match content))" by simp
    then show ?thesis by (rule parse_content_decode_error)
  qed
qed

lemma parse_content_raises:
  "parse_content loads content n = Inl cause \<Longrightarrow>
     loads (json_match content) = Inl cause \<and> exn_type cause \<noteq> JSONDecodeError"
  by (auto simp: parse_content_def split: sum.splits if_splits)

lemma calls_are_chat_requests:
  assumes "req \<in> set (calls (analyze_building_risks loads svc data))"
  shows "\<exists>user_content. req = chat_request svc (image_count data) user_content"
  using assms
  by (auto simp: analyze_calls analyze_attempt_def Let_def image_count_def split: sum.splits)

lemma sent_png:
  "calls (analyze_building_risks loads svc (Images [png])) =
     [chat_request svc 1 [TextPart (get_user_prompt 1), image_block png]]"
  using calls_has_keys [of "Images [png]" loads svc]
  by (simp add: normalize_input_def has_keys_png)

section \<open>The parsed object is handed on untouched\<close>

text \<open>
  C1. The model has answered the request with a text made of some prose without an
  opening brace, one object from its opening to its closing brace, and some prose
  without a closing brace, and \<open>loads\<close> parses the object. Then the text cut out
  from the first opening to the last closing brace is that object, and the analysis
  returns what \<open>loads\<close> made of it, whatever that value is: nothing is changed, and
  nothing is checked against the shape of a risk assessment.
\<close>

theorem analyze_returns_parsed_object:
  assumes sent: "calls (analyze_building_risks loads svc data) = [req]"
    and answered: "client svc req = Inr resp"
    and no_error: "resp_error resp = None"
    and content: "resp_choices resp = Some (before @ CHR ''{'' # body @ CHR ''}'' # after) # others"
    and prose: "CHR ''{'' \<notin> set before" "CHR ''}'' \<notin> set after"
    and parses: "loads (CHR ''{'' # body @ [CHR ''}'']) = Inr parsed"
  shows "json_match (before @ CHR ''{'' # body @ CHR ''}'' # after) = CHR ''{'' # body @ [CHR ''}'']
       \<and> result (analyze_building_risks loads svc data) = Inr parsed"
proof -
  let ?content = "before @ CHR ''{'' # body @ CHR ''}'' # after"
  have m: "json_match ?content = CHR ''{'' # body @ [CHR ''}'']"
    using prose by (rule json_match_recovers)
  have "parse_content loads ?content n = Inr parsed" for n
    by (simp add: parse_content_def m parses)
  then have "read_response loads resp n = Inr parsed" for n
    by (simp add: read_response_def no_error content truthy_def)
  moreover have "result (analyze_attempt loads svc data) =
      (case client svc req of Inl e \<Rightarrow> Inl e
       | Inr resp \<Rightarrow> read_response loads resp (int (length (normalize_input data))))"
    using sent by (simp add: analyze_calls attempt_sent)
  ultimately have "result (analyze_attempt loads svc data) = Inr parsed"
    by (simp add: answered)
  then show ?thesis
    by (simp add: m analyze_result)
qed

theorem analyze_returns_parsed_object_witness:
  \<open>calls (analyze_building_risks stub_loads
      (stub_service (reply ''Here is the result: {"overall_risk_level":"HIGH","risk_score":8,"images_analyzed":3} Let me know.''))
      (Images [png, png, png]))
     = [chat_request (stub_service (reply ''Here is the result: {"overall_risk_level":"HIGH","risk_score":8,"images_analyzed":3} Let me know.'')) 3
          [TextPart (get_user_prompt 3), image_block png, image_block png, image_block png]]
   \<and> result (analyze_building_risks stub_loads
      (stub_service (reply ''Here is the result: {"overall_risk_level":"HIGH","risk_score":8,"images_analyzed":3} Let me know.''))
      (Images [png, png, png]))
     = Inr (JDict [(''overall_risk_level'', JStr ''HIGH''), (''risk_score'', JInt 8),
                       (''images_analyzed'', JInt 3)])\<close>
proof -
  let ?t = \<open>''Here is the result: {"overall_risk_level":"HIGH","risk_score":8,"images_analyzed":3} Let me know.''\<close>
  let ?svc = "stub_service (reply ?t)"
  let ?req = "chat_request ?svc 3 [TextPart (get_user_prompt 3), image_block png, image_block png, image_block png]"
  have sent: "calls (analyze_building_risks stub_loads ?svc (Images [png, png, png])) = [?req]"
    using calls_has_keys [of "Images [png, png, png]" stub_loads ?svc]
    by (simp add: normalize_input_def has_keys_png)
  have answered: "client ?svc ?req = Inr \<lparr>resp_error = None, resp_choices = [Some ?t]\<rparr>"
    by (simp add: stub_service_def reply_def)
  have parses: \<open>stub_loads (CHR ''{'' # ''"overall_risk_level":"HIGH","risk_score":8,"images_analyzed":3'' @ [CHR ''}''])
     = Inr (JDict [(''overall_risk_level'', JStr ''HIGH''), (''risk_score'', JInt 8),
                       (''images_analyzed'', JInt 3)])\<close>
    by (simp add: stub_loads_def)
  show ?thesis
    using analyze_returns_parsed_object
      [where loads = stub_loads and svc = ?svc and data = "Images [png, png, png]"
         and req = ?req and resp = "\<lparr>resp_error = None, resp_choices = [Some ?t]\<rparr>"
         and before = "''Here is the result: ''"
         and body = \<open>''"overall_risk_level":"HIGH","risk_score":8,"images_analyzed":3''\<close>
         and after = "'' Let me know.''" and others = "[]"
         and parsed = "JDict [(''overall_risk_level'', JStr ''HIGH''), (''risk_score'', JInt 8),
                       (''images_analyzed'', JInt 3)]"]
      sent answered parses
    by simp
qed

section \<open>A reply that cannot be parsed\<close>

text \<open>
  What holds of a reply that is not JSON. The model has answered the request with a
  non-empty text. If the text has no opening brace, or if \<open>loads\<close> rejects what was
  cut out of it with a \<^verbatim>\<open>JSONDecodeError\<close>, the analysis returns the fallback
  response, whose \<^verbatim>\<open>raw_response\<close> is the text itself and whose
  \<^verbatim>\<open>images_analyzed\<close> is the number of images. A text without an opening brace
  that ends in a closing brace is cut down to that brace and given to \<open>loads\<close>; the
  last assumption says that \<^verbatim>\<open>json.loads\<close> rejects it, as it does. Whatever the
  analysis raises after such an answer is an exception of \<open>loads\<close> of another class.
\<close>

lemma decode_error_gives_fallback:
  assumes sent: "calls (analyze_building_risks loads svc data) = [req]"
    and answered: "client svc req = Inr resp"
    and no_error: "resp_error resp = None"
    and content: "resp_choices resp = Some content # others"
    and nonempty: "content \<noteq> []"
    and not_json: "decode_error (loads ''}'')"
  shows "(CHR ''{'' \<notin> set content \<longrightarrow>
            result (analyze_building_risks loads svc data) =
              Inr (create_fallback_response content (image_count data)))
       \<and> (decode_error (loads (json_match content)) \<longrightarrow>
            result (analyze_building_risks loads svc data) =
              Inr (create_fallback_response content (image_count data)))
       \<and> dict_get (create_fallback_response content (image_count data)) ''raw_response''
            = Some (JStr content)
       \<and> dict_get (create_fallback_response content (image_count data)) ''images_analyzed''
            = Some (JInt (image_count data))
       \<and> (\<forall>e. result (analyze_building_risks loads svc data) = Inl e \<longrightarrow>
            (\<exists>cause. e = analysis_failed cause \<and> loads (json_match content) = Inl cause
               \<and> exn_type cause \<noteq> JSONDecodeError))"
proof -
  note r = result_answered [OF sent answered no_error content nonempty]
  have a: "CHR ''{'' \<notin> set content \<longrightarrow>
            result (analyze_building_risks loads svc data) =
              Inr (create_fallback_response content (image_count data))"
    by (simp add: r parse_content_no_open not_json)
  have b: "decode_error (loads (json_match content)) \<longrightarrow>
            result (analyze_building_risks loads svc data) =
              Inr (create_fallback_response content (image_count data))"
    by (simp add: r parse_content_decode_error)
  have c: "dict_get (create_fallback_response content (image_count data)) ''raw_response''
            = Some (JStr content)"
    by (simp add: create_fallback_response_def)
  have d: "dict_get (create_fallback_response content (image_count data)) ''images_analyzed''
            = Some (JInt (image_count data))"
    by (simp add: create_fallback_response_def)
  have e: "\<forall>e. result (analyze_building_risks loads svc data) = Inl e \<longrightarrow>
            (\<exists>cause. e = analysis_failed cause \<and> loads (json_match content) = Inl cause
               \<and> exn_type cause \<noteq> JSONDecodeError)"
    using parse_content_raises [of loads content "image_count data"]
    by (auto simp: r split: sum.splits)
  from a b c d e show ?thesis by blast
qed

lemma decode_error_gives_fallback_examples:
  "CHR ''{'' \<notin> set ''I cannot parse this.''
   \<and> result (analyze_building_risks stub_loads (stub_service (reply ''I cannot parse this.''))
        (Images [png]))
      = Inr (create_fallback_response ''I cannot parse this.'' 1)
   \<and> dict_get (create_fallback_response ''I cannot parse this.'' 1) ''raw_response''
      = Some (JStr ''I cannot parse this.'')
   \<and> dict_get (create_fallback_response ''I cannot parse this.'' 1) ''images_analyzed''
      = Some (JInt 1)
   \<and> CHR ''{'' \<notin> set ''All done }''
   \<and> result (analyze_building_risks stub_loads (stub_service (reply ''All done }''))
        (Images [png]))
      = Inr (create_fallback_response ''All done }'' 1)
   \<and> json_match ''Result: {risk: HIGH} as asked'' = ''{risk: HIGH}''
   \<and> decode_error (stub_loads ''{risk: HIGH}'')
   \<and> result (analyze_building_risks stub_loads
        (stub_service (reply ''Result: {risk: HIGH} as asked'')) (Images [png]))
      = Inr (create_fallback_response ''Result: {risk: HIGH} as asked'' 1)"
proof -
  have n: "image_count (Images [png]) = 1"
    by (simp add: image_count_def normalize_input_def)
  have rejects: "decode_error (stub_loads ''}'')" "decode_error (stub_loads ''{risk: HIGH}'')"
    by (simp_all add: decode_error_def stub_loads_def)
  have m: "json_match ''Result: {risk: HIGH} as asked'' = ''{risk: HIGH}''"
    by code_simp
  have answered: "client (stub_service (reply t)) req = Inr \<lparr>resp_error = None, resp_choices = [Some t]\<rparr>"
    for t req
    by (simp add: stub_service_def reply_def)
  have a: "result (analyze_building_risks stub_loads (stub_service (reply ''I cannot parse this.''))
        (Images [png])) = Inr (create_fallback_response ''I cannot parse this.'' 1)
     \<and> dict_get (create_fallback_response ''I cannot parse this.'' 1) ''raw_response''
      = Some (JStr ''I cannot parse this.'')
     \<and> dict_get (create_fallback_response ''I cannot parse this.'' 1) ''images_analyzed''
      = Some (JInt 1)"
    using decode_error_gives_fallback
      [where loads = stub_loads and svc = "stub_service (reply ''I cannot parse this.'')"
         and data = "Images [png]" and content = "''I cannot parse this.''" and others = "[]"
         and resp = "\<lparr>resp_error = None, resp_choices = [Some ''I cannot parse this.'']\<rparr>",
       OF sent_png answered]
      rejects(1)
    by (simp add: n)
  have b: "result (analyze_building_risks stub_loads (stub_service (reply ''All done }''))
        (Images [png])) = Inr (create_fallback_response ''All done }'' 1)"
    using decode_error_gives_fallback
      [where loads = stub_loads and svc = "stub_service (reply ''All done }'')"
         and data = "Images [png]" and content = "''All done }''" and others = "[]"
         and resp = "\<lparr>resp_error = None, resp_choices = [Some ''All done }'']\<rparr>",
       OF sent_png answered]
      rejects(1)
    by (simp add: n)
  have c: "result (analyze_building_risks stub_loads
        (stub_service (reply ''Result: {risk: HIGH} as asked'')) (Images [png]))
      = Inr (create_fallback_response ''Result: {risk: HIGH} as asked'' 1)"
    using decode_error_gives_fallback
      [where loads = stub_loads and svc = "stub_service (reply ''Result: {risk: HIGH} as asked'')"
         and data = "Images [png]" and content = "''Result: {risk: HIGH} as asked''" and others = "[]"
         and resp = "\<lparr>resp_error = None, resp_choices = [Some ''Result: {risk: HIGH} as asked'']\<rparr>",
       OF sent_png answered]
      rejects(1)
      rejects(2)
    by (simp add: n m)
  from a b c m rejects(2) show ?thesis by simp
qed

lemma other_failure_is_raised:
  assumes sent: "calls (analyze_building_risks loads svc data) = [req]"
    and answered: "client svc req = Inr resp"
    and no_error: "resp_error resp = None"
    and content: "resp_choices resp = Some content # others"
    and span: "json_match content \<noteq> []"
    and raised: "loads (json_match content) = Inl cause"
    and other: "exn_type cause \<noteq> JSONDecodeError"
  shows "result (analyze_building_risks loads svc data) = Inl (analysis_failed cause)"
proof -
  from span have nonempty: "content \<noteq> []"
    by (auto simp: json_match_def str_slice_def Let_def)
  have "parse_content loads content (image_count data) = Inl cause"
    using span raised other by (simp add: parse_content_def)
  with result_answered [OF sent answered no_error content nonempty] show ?thesis
    by simp
qed

text \<open>
  C2 says that a reply whose brace span is malformed JSON gives the fallback and that
  no failure to parse is ever raised. Line 89 catches \<^verbatim>\<open>json.JSONDecodeError\<close> and
  nothing else. The reply below opens an object and 1100 arrays and closes the object
  only: the parser exceeds the recursion limit before it finds the text malformed and
  raises \<^verbatim>\<open>RecursionError\<close>, which passes line 89, is caught at line 93, and
  line 95 raises. The analysis raises where the claim, and the docstring of the
  fallback builder (a fallback response when JSON parsing fails), promise the fallback.
\<close>

theorem unparsable_reply_is_raised:
  "deeply_nested \<noteq> []
   \<and> json_match deeply_nested = deeply_nested
   \<and> limited_loads deeply_nested = Inl recursion_error
   \<and> exn_type recursion_error \<noteq> JSONDecodeError
   \<and> result (analyze_building_risks limited_loads (stub_service (reply deeply_nested))
         (Images [png]))
       = Inl (analysis_failed recursion_error)
   \<and> result (analyze_building_risks limited_loads (stub_service (reply deeply_nested))
         (Images [png]))
       \<noteq> Inr (create_fallback_response deeply_nested 1)"
proof -
  let ?svc = "stub_service (reply deeply_nested)"
  have ne: "deeply_nested \<noteq> []"
    by (simp add: deeply_nested_def)
  have \<open>json_match ([] @ CHR ''{'' # (''"a":'' @ replicate 1100 (CHR ''['')) @ CHR ''}'' # [])
      = CHR ''{'' # (''"a":'' @ replicate 1100 (CHR ''['')) @ [CHR ''}'']\<close>
    by (rule json_match_recovers) simp_all
  then have m: "json_match deeply_nested = deeply_nested"
    by (simp add: deeply_nested_def)
  have l: "limited_loads deeply_nested = Inl recursion_error"
    by (simp add: limited_loads_def)
  have o: "exn_type recursion_error \<noteq> JSONDecodeError"
    by (simp add: recursion_error_def)
  have c: "client ?svc req = Inr \<lparr>resp_error = None, resp_choices = [Some deeply_nested]\<rparr>"
    for req
    by (simp add: stub_service_def reply_def)
  have r: "result (analyze_building_risks limited_loads ?svc (Images [png]))
      = Inl (analysis_failed recursion_error)"
    by (rule other_failure_is_raised [OF sent_png c, where content = deeply_nested and others = "[]"])
       (simp_all add: m ne l o)
  then have f: "result (analyze_building_risks limited_loads ?svc (Images [png]))
      \<noteq> Inr (create_fallback_response deeply_nested 1)"
    by simp
  show ?thesis
    apply (intro conjI)
         apply (rule ne)
        apply (rule m)
       apply (rule l)
      apply (rule o)
     apply (rule r)
    apply (rule f)
    done
qed

section \<open>The shape of the fallback response\<close>

text \<open>
  C3. The fallback response built for a text \<open>t\<close> and \<open>n\<close> images has overall risk
  level \<^verbatim>\<open>MEDIUM\<close>, risk score 5, \<open>n\<close> images analysed, one generic finding, a
  detailed assessment with exactly the five categories, each of them the same
  placeholder with risk level \<^verbatim>\<open>MEDIUM\<close> and no observations and no concerns, one
  generic recommendation, nothing further asked for, a summary sentence made from
  \<open>n\<close>, and \<open>t\<close> as its raw response; it has no other key.
\<close>

theorem fallback_response_shape:
  "dict_keys (create_fallback_response t n) =
     [''overall_risk_level'', ''risk_score'', ''images_analyzed'', ''key_findings'',
      ''raw_response'', ''detailed_assessment'', ''recommendations'',
      ''additional_information_needed'', ''image_analysis_summary'']
   \<and> dict_get (create_fallback_response t n) ''overall_risk_level'' = Some (JStr ''MEDIUM'')
   \<and> dict_get (create_fallback_response t n) ''risk_score'' = Some (JInt 5)
   \<and> dict_get (create_fallback_response t n) ''images_analyzed'' = Some (JInt n)
   \<and> dict_get (create_fallback_response t n) ''key_findings''
        = Some (JList [JStr ''Analysis completed - see detailed response''])
   \<and> (\<exists>categories placeholder.
          dict_get (create_fallback_response t n) ''detailed_assessment'' = Some (JDict categories)
        \<and> map fst categories =
            [''fire_safety'', ''structural'', ''security'', ''water_damage'', ''environmental'']
        \<and> set (map snd categories) = {placeholder}
        \<and> dict_keys placeholder = [''risk_level'', ''observations'', ''concerns'']
        \<and> dict_get placeholder ''risk_level'' = Some (JStr ''MEDIUM'')
        \<and> dict_get placeholder ''observations'' = Some (JList [])
        \<and> dict_get placeholder ''concerns'' = Some (JList []))
   \<and> dict_get (create_fallback_response t n) ''recommendations''
        = Some (JList [JStr ''Review detailed analysis''])
   \<and> dict_get (create_fallback_response t n) ''additional_information_needed'' = Some (JList [])
   \<and> dict_get (create_fallback_response t n) ''image_analysis_summary''
        = Some (JStr (''Analysis of '' @ str_int n @ '' building image''
                      @ (if n > 1 then ''s'' else '''') @ '' completed''))
   \<and> dict_get (create_fallback_response t n) ''raw_response'' = Some (JStr t)"
proof -
  let ?r = "create_fallback_response t n"
  let ?p = "JDict [(''risk_level'', JStr ''MEDIUM''), (''observations'', JList []),
                   (''concerns'', JList [])]"
  let ?cs = "[(''fire_safety'', ?p), (''structural'', ?p), (''security'', ?p),
              (''water_damage'', ?p), (''environmental'', ?p)]"
  have keys: "dict_keys ?r =
     [''overall_risk_level'', ''risk_score'', ''images_analyzed'', ''key_findings'',
      ''raw_response'', ''detailed_assessment'', ''recommendations'',
      ''additional_information_needed'', ''image_analysis_summary'']"
    by (simp add: create_fallback_response_def)
  have level: "dict_get ?r ''overall_risk_level'' = Some (JStr ''MEDIUM'')"
    by (simp add: create_fallback_response_def)
  have score: "dict_get ?r ''risk_score'' = Some (JInt 5)"
    by (simp add: create_fallback_response_def)
  have analyzed: "dict_get ?r ''images_analyzed'' = Some (JInt n)"
    by (simp add: create_fallback_response_def)
  have findings: "dict_get ?r ''key_findings''
        = Some (JList [JStr ''Analysis completed - see detailed response''])"
    by (simp add: create_fallback_response_def)
  have da: "dict_get ?r ''detailed_assessment'' = Some (JDict ?cs)"
    by (simp add: create_fallback_response_def)
  have names: "map fst ?cs =
      [''fire_safety'', ''structural'', ''security'', ''water_damage'', ''environmental'']"
    by simp
  have same: "set (map snd ?cs) = {?p}"
    by simp
  have p: "dict_keys ?p = [''risk_level'', ''observations'', ''concerns'']"
    "dict_get ?p ''risk_level'' = Some (JStr ''MEDIUM'')"
    "dict_get ?p ''observations'' = Some (JList [])"
    "dict_get ?p ''concerns'' = Some (JList [])"
    by simp_all
  have detailed: "\<exists>categories placeholder.
          dict_get ?r ''detailed_assessment'' = Some (JDict categories)
        \<and> map fst categories =
            [''fire_safety'', ''structural'', ''security'', ''water_damage'', ''environmental'']
        \<and> set (map snd categories) = {placeholder}
        \<and> dict_keys placeholder = [''risk_level'', ''observations'', ''concerns'']
        \<and> dict_get placeholder ''risk_level'' = Some (JStr ''MEDIUM'')
        \<and> dict_get placeholder ''observations'' = Some (JList [])
        \<and> dict_get placeholder ''concerns'' = Some (JList [])"
    apply (rule exI [of _ ?cs])
    apply (rule exI [of _ ?p])
    apply (intro conjI)
          apply (rule da)
         apply (rule names)
        apply (rule same)
       apply (rule p(1))
      apply (rule p(2))
     apply (rule p(3))
    apply (rule p(4))
    done
  have recs: "dict_get ?r ''recommendations'' = Some (JList [JStr ''Review detailed analysis''])"
    by (simp add: create_fallback_response_def)
  have info: "dict_get ?r ''additional_information_needed'' = Some (JList [])"
    by (simp add: create_fallback_response_def)
  have summary: "dict_get ?r ''image_analysis_summary''
        = Some (JStr (''Analysis of '' @ str_int n @ '' building image''
                      @ (if n > 1 then ''s'' else '''') @ '' completed''))"
    by (simp add: create_fallback_response_def)
  have raw: "dict_get ?r ''raw_response'' = Some (JStr t)"
    by (simp add: create_fallback_response_def)
  show ?thesis
    apply (intro conjI)
             apply (rule keys)
            apply (rule level)
           apply (rule score)
          apply (rule analyzed)
         apply (rule findings)
        apply (rule detailed)
       apply (rule recs)
      apply (rule info)
     apply (rule summary)
    apply (rule raw)
    done
qed

section \<open>Failures are wrapped in one exception\<close>

text \<open>
  C4. Once the request has been sent, a failure of the transport, an error reported by
  the provider and an empty or absent reply text each make the analysis raise the one
  exception of line 95 around the failure. Whatever the analysis raises, in any run, is
  that exception: its class is \<^verbatim>\<open>Exception\<close>, its text is
  \<^verbatim>\<open>Risk analysis failed:\<close> followed by the text of the failure it wraps, and it
  carries that failure as its context.
\<close>

theorem analyze_raises_only_analysis_failed:
  assumes sent: "calls (analyze_building_risks loads svc data) = [req]"
  shows "(\<forall>cause. client svc req = Inl cause \<longrightarrow>
            result (analyze_building_risks loads svc data) = Inl (analysis_failed cause))
       \<and> (\<forall>resp e. client svc req = Inr resp \<and> resp_error resp = Some e \<longrightarrow>
            result (analyze_building_risks loads svc data) =
              Inl (analysis_failed (Exn Exception (''Azure OpenAI API Error: '' @ e) None)))
       \<and> (\<forall>resp choice others.
            client svc req = Inr resp \<and> resp_error resp = None
              \<and> resp_choices resp = choice # others \<and> choice \<in> {None, Some ''''} \<longrightarrow>
            result (analyze_building_risks loads svc data) =
              Inl (analysis_failed
                     (Exn Exception ''No response content received from Azure OpenAI'' None)))
       \<and> (\<forall>e. result (analyze_building_risks loads svc data) = Inl e \<longrightarrow>
            exn_type e = Exception
              \<and> (\<exists>cause. exn_context e = Some cause
                    \<and> exn_str e = ''Risk analysis failed: '' @ exn_str cause))"
proof -
  note r = result_sent [OF sent]
  have transport: "\<forall>cause. client svc req = Inl cause \<longrightarrow>
            result (analyze_building_risks loads svc data) = Inl (analysis_failed cause)"
    by (simp add: r)
  have provider: "\<forall>resp e. client svc req = Inr resp \<and> resp_error resp = Some e \<longrightarrow>
            result (analyze_building_risks loads svc data) =
              Inl (analysis_failed (Exn Exception (''Azure OpenAI API Error: '' @ e) None))"
    by (simp add: r read_response_def)
  have empty: "\<forall>resp choice others.
            client svc req = Inr resp \<and> resp_error resp = None
              \<and> resp_choices resp = choice # others \<and> choice \<in> {None, Some ''''} \<longrightarrow>
            result (analyze_building_risks loads svc data) =
              Inl (analysis_failed
                     (Exn Exception ''No response content received from Azure OpenAI'' None))"
    by (auto simp: r read_response_def truthy_def)
  have only: "\<forall>e. result (analyze_building_risks loads svc data) = Inl e \<longrightarrow>
            exn_type e = Exception
              \<and> (\<exists>cause. exn_context e = Some cause
                    \<and> exn_str e = ''Risk analysis failed: '' @ exn_str cause)"
    by (auto dest!: raised_is_wrapped simp: analysis_failed_def)
  show ?thesis
    apply (intro conjI)
       apply (rule transport)
      apply (rule provider)
     apply (rule empty)
    apply (rule only)
    done
qed

theorem analyze_raises_only_analysis_failed_witness:
  "result (analyze_building_risks stub_loads
      (stub_service (Inl (Exn (OtherError ''APIConnectionError'') ''Connection error.'' None)))
      (Images [png]))
     = Inl (Exn Exception ''Risk analysis failed: Connection error.''
          (Some (Exn (OtherError ''APIConnectionError'') ''Connection error.'' None)))
   \<and> result (analyze_building_risks stub_loads
      (stub_service (Inr \<lparr>resp_error = Some ''quota exceeded'', resp_choices = []\<rparr>))
      (Images [png]))
     = Inl (Exn Exception ''Risk analysis failed: Azure OpenAI API Error: quota exceeded''
          (Some (Exn Exception ''Azure OpenAI API Error: quota exceeded'' None)))
   \<and> result (analyze_building_risks stub_loads
      (stub_service (Inr \<lparr>resp_error = None, resp_choices = [None]\<rparr>))
      (Images [png]))
     = Inl (Exn Exception
          ''Risk analysis failed: No response content received from Azure OpenAI''
          (Some (Exn Exception ''No response content received from Azure OpenAI'' None)))
   \<and> result (analyze_building_risks stub_loads (stub_service (reply '''')) (Images [png]))
     = Inl (Exn Exception
          ''Risk analysis failed: No response content received from Azure OpenAI''
          (Some (Exn Exception ''No response content received from Azure OpenAI'' None)))"
proof -
  have c: "client (stub_service answer) req = answer" for answer req
    by (simp add: stub_service_def)
  have a: "result (analyze_building_risks stub_loads
      (stub_service (Inl (Exn (OtherError ''APIConnectionError'') ''Connection error.'' None)))
      (Images [png]))
     = Inl (analysis_failed (Exn (OtherError ''APIConnectionError'') ''Connection error.'' None))"
    using analyze_raises_only_analysis_failed
      [where loads = stub_loads and data = "Images [png]"
         and svc = "stub_service (Inl (Exn (OtherError ''APIConnectionError'') ''Connection error.'' None))",
       OF sent_png]
    by (simp add: c)
  have b: "result (analyze_building_risks stub_loads
      (stub_service (Inr \<lparr>resp_error = Some ''quota exceeded'', resp_choices = []\<rparr>))
      (Images [png]))
     = Inl (analysis_failed (Exn Exception (''Azure OpenAI API Error: '' @ ''quota exceeded'') None))"
    using analyze_raises_only_analysis_failed
      [where loads = stub_loads and data = "Images [png]"
         and svc = "stub_service (Inr \<lparr>resp_error = Some ''quota exceeded'', resp_choices = []\<rparr>)",
       OF sent_png]
    by (simp add: c)
  have d: "result (analyze_building_risks stub_loads
      (stub_service (Inr \<lparr>resp_error = None, resp_choices = [None]\<rparr>))
      (Images [png]))
     = Inl (analysis_failed (Exn Exception ''No response content received from Azure OpenAI'' None))"
    using analyze_raises_only_analysis_failed
      [where loads = stub_loads and data = "Images [png]"
         and svc = "stub_service (Inr \<lparr>resp_error = None, resp_choices = [None]\<rparr>)",
       OF sent_png]
    by (simp add: c)
  have e: "result (analyze_building_risks stub_loads (stub_service (reply '''')) (Images [png]))
     = Inl (analysis_failed (Exn Exception ''No response content received from Azure OpenAI'' None))"
    using analyze_raises_only_analysis_failed
      [where loads = stub_loads and data = "Images [png]"
         and svc = "stub_service (reply '''')",
       OF sent_png]
    by (simp add: c reply_def)
  from a b d e show ?thesis
    by (simp add: analysis_failed_def)
qed

section \<open>The health check reports a boolean\<close>

text \<open>
  C5. The health check never raises. It returns true exactly when the model answered
  and the text of the first choice contains \<^verbatim>\<open>OK\<close>; it returns false when the
  transport fails and when the response has no choice to read.
\<close>

theorem health_check_reports_ok:
  "result (health_check svc) =
     Inr (\<exists>resp t others before after.
            client svc (health_request svc) = Inr resp
          \<and> resp_choices resp = Some t # others
          \<and> t = before @ ''OK'' @ after)
   \<and> (\<forall>e. client svc (health_request svc) = Inl e \<longrightarrow> result (health_check svc) = Inr False)
   \<and> (\<forall>resp. client svc (health_request svc) = Inr resp \<and> resp_choices resp = [] \<longrightarrow>
         result (health_check svc) = Inr False)
   \<and> (\<forall>e. result (health_check svc) \<noteq> Inl e)"
proof -
  have main: "result (health_check svc) =
     Inr (\<exists>resp t others before after.
            client svc (health_request svc) = Inr resp
          \<and> resp_choices resp = Some t # others
          \<and> t = before @ ''OK'' @ after)"
  proof (cases "client svc (health_request svc)")
    case (Inl e)
    then show ?thesis by (simp add: health_check_def health_attempt_def)
  next
    case (Inr resp)
    show ?thesis
    proof (cases "resp_choices resp")
      case Nil
      with Inr show ?thesis by (simp add: health_check_def health_attempt_def)
    next
      case (Cons choice others)
      show ?thesis
      proof (cases choice)
        case None
        with Inr Cons show ?thesis
          by (simp add: health_check_def health_attempt_def truthy_def)
      next
        case (Some t)
        show ?thesis
        proof (cases t)
          case Nil
          with Inr Cons Some show ?thesis
            by (simp add: health_check_def health_attempt_def truthy_def)
        next
          case (Cons x xs)
          then have "truthy (Some t)" by (simp add: truthy_def)
          with Inr \<open>resp_choices resp = choice # others\<close> Some show ?thesis
            by (simp add: health_check_def health_attempt_def str_in_iff)
        qed
      qed
    qed
  qed
  have transport: "\<forall>e. client svc (health_request svc) = Inl e \<longrightarrow>
      result (health_check svc) = Inr False"
    by (simp add: health_check_def health_attempt_def)
  have access: "\<forall>resp. client svc (health_request svc) = Inr resp \<and> resp_choices resp = [] \<longrightarrow>
         result (health_check svc) = Inr False"
    by (simp add: health_check_def health_attempt_def)
  have never: "\<forall>e. result (health_check svc) \<noteq> Inl e"
    by (simp add: health_check_def split: sum.split)
  show ?thesis
    apply (intro conjI)
       apply (rule main)
      apply (rule transport)
     apply (rule access)
    apply (rule never)
    done
qed

theorem health_check_reports_ok_witness:
  "result (health_check (stub_service (reply ''OK''))) = Inr True
   \<and> result (health_check (stub_service (reply ''The service is OK.''))) = Inr True
   \<and> result (health_check (stub_service (reply ''ok, I am here''))) = Inr False
   \<and> result (health_check
        (stub_service (Inl (Exn (OtherError ''APIConnectionError'') ''Connection error.'' None))))
      = Inr False
   \<and> result (health_check (stub_service (Inr \<lparr>resp_error = None, resp_choices = []\<rparr>)))
      = Inr False
   \<and> result (health_check (stub_service (Inr \<lparr>resp_error = None, resp_choices = [None]\<rparr>)))
      = Inr False"
proof -
  have c: "client (stub_service answer) req = answer" for answer req
    by (simp add: stub_service_def)
  have ok: "result (health_check (stub_service (reply t))) = Inr True"
    if "t = before @ ''OK'' @ after" for t before after
  proof -
    let ?svc = "stub_service (reply t)"
    have "client ?svc (health_request ?svc) = Inr \<lparr>resp_error = None, resp_choices = [Some t]\<rparr>
        \<and> resp_choices \<lparr>resp_error = None, resp_choices = [Some t]\<rparr> = Some t # []
        \<and> t = before @ ''OK'' @ after"
      using that by (simp add: c reply_def)
    then have "\<exists>resp t' others before after.
            client ?svc (health_request ?svc) = Inr resp
          \<and> resp_choices resp = Some t' # others
          \<and> t' = before @ ''OK'' @ after"
      by blast
    then have "(\<exists>resp t' others before after.
            client ?svc (health_request ?svc) = Inr resp
          \<and> resp_choices resp = Some t' # others
          \<and> t' = before @ ''OK'' @ after) = True"
      by (rule eqTrueI)
    with conjunct1 [OF health_check_reports_ok [of ?svc]] show ?thesis
      by (simp only:)
  qed
  have a: "result (health_check (stub_service (reply ''OK''))) = Inr True"
    by (rule ok [of _ "[]" "[]"]) simp
  have b: "result (health_check (stub_service (reply ''The service is OK.''))) = Inr True"
    by (rule ok [of _ "''The service is ''" "''.''"]) simp
  have d: "result (health_check (stub_service (reply ''ok, I am here''))) = Inr False"
    by (simp add: health_check_def health_attempt_def c reply_def truthy_def)
  have e: "result (health_check
        (stub_service (Inl (Exn (OtherError ''APIConnectionError'') ''Connection error.'' None))))
      = Inr False"
    using health_check_reports_ok
      [of "stub_service (Inl (Exn (OtherError ''APIConnectionError'') ''Connection error.'' None))"]
    by (simp add: c)
  have f: "result (health_check (stub_service (Inr \<lparr>resp_error = None, resp_choices = []\<rparr>)))
      = Inr False"
    using health_check_reports_ok
      [of "stub_service (Inr \<lparr>resp_error = None, resp_choices = []\<rparr>)"]
    by (simp add: c)
  have g: "result (health_check (stub_service (Inr \<lparr>resp_error = None, resp_choices = [None]\<rparr>)))
      = Inr False"
    using health_check_reports_ok
      [of "stub_service (Inr \<lparr>resp_error = None, resp_choices = [None]\<rparr>)"]
    by (simp add: c)
  from a b d e f g show ?thesis by simp
qed

section \<open>Configuration is checked at construction\<close>

lemma init_missing:
  assumes "getenv ''4.1_OPENAI_ENDPOINT'' \<in> {None, Some ''''}
      \<or> getenv ''4.1_OPENAI_API_KEY'' \<in> {None, Some ''''}
      \<or> getenv ''4.1_OPENAI_DEPLOYMENT_NAME'' \<in> {None, Some ''''}"
  shows "init getenv AzureOpenAI = Inl configuration_error"
  using assms
  by (auto simp: init_def Let_def truthy_def configuration_error_def)

lemma init_present:
  assumes "getenv ''4.1_OPENAI_ENDPOINT'' = Some e" and "e \<noteq> []"
    and "getenv ''4.1_OPENAI_API_KEY'' = Some k" and "k \<noteq> []"
    and "getenv ''4.1_OPENAI_DEPLOYMENT_NAME'' = Some d" and "d \<noteq> []"
  shows "init getenv AzureOpenAI =
     (case AzureOpenAI e k ''2024-04-01-preview'' of
        Inl raised \<Rightarrow> Inl raised
      | Inr built \<Rightarrow>
          Inr \<lparr>endpoint = e, api_key = k, deployment = d,
               api_version = ''2024-04-01-preview'', client = built\<rparr>)"
  using assms by (simp add: init_def Let_def truthy_def split: sum.split)

lemma present_or_missing:
  "(\<exists>e k d. getenv ''4.1_OPENAI_ENDPOINT'' = Some e \<and> e \<noteq> []
       \<and> getenv ''4.1_OPENAI_API_KEY'' = Some k \<and> k \<noteq> []
       \<and> getenv ''4.1_OPENAI_DEPLOYMENT_NAME'' = Some d \<and> d \<noteq> [])
   \<or> (getenv ''4.1_OPENAI_ENDPOINT'' \<in> {None, Some ''''}
      \<or> getenv ''4.1_OPENAI_API_KEY'' \<in> {None, Some ''''}
      \<or> getenv ''4.1_OPENAI_DEPLOYMENT_NAME'' \<in> {None, Some ''''})"
  by (cases "getenv ''4.1_OPENAI_ENDPOINT''"; cases "getenv ''4.1_OPENAI_API_KEY''";
      cases "getenv ''4.1_OPENAI_DEPLOYMENT_NAME''") auto

lemma init_raises_iff:
  assumes "\<forall>e k v. AzureOpenAI e k v \<noteq> Inl configuration_error"
  shows "(init getenv AzureOpenAI = Inl configuration_error) =
     (getenv ''4.1_OPENAI_ENDPOINT'' \<in> {None, Some ''''}
      \<or> getenv ''4.1_OPENAI_API_KEY'' \<in> {None, Some ''''}
      \<or> getenv ''4.1_OPENAI_DEPLOYMENT_NAME'' \<in> {None, Some ''''})"
proof
  assume raised: "init getenv AzureOpenAI = Inl configuration_error"
  show "getenv ''4.1_OPENAI_ENDPOINT'' \<in> {None, Some ''''}
      \<or> getenv ''4.1_OPENAI_API_KEY'' \<in> {None, Some ''''}
      \<or> getenv ''4.1_OPENAI_DEPLOYMENT_NAME'' \<in> {None, Some ''''}"
  proof (rule ccontr)
    assume "\<not> ?thesis"
    with present_or_missing [of getenv] obtain e k d
      where "getenv ''4.1_OPENAI_ENDPOINT'' = Some e" "e \<noteq> []"
        "getenv ''4.1_OPENAI_API_KEY'' = Some k" "k \<noteq> []"
        "getenv ''4.1_OPENAI_DEPLOYMENT_NAME'' = Some d" "d \<noteq> []"
      by blast
    from init_present [OF this, of AzureOpenAI] raised
    have "AzureOpenAI e k ''2024-04-01-preview'' = Inl configuration_error"
      by (simp split: sum.splits)
    with assms show False by blast
  qed
next
  assume "getenv ''4.1_OPENAI_ENDPOINT'' \<in> {None, Some ''''}
      \<or> getenv ''4.1_OPENAI_API_KEY'' \<in> {None, Some ''''}
      \<or> getenv ''4.1_OPENAI_DEPLOYMENT_NAME'' \<in> {None, Some ''''}"
  then show "init getenv AzureOpenAI = Inl configuration_error"
    by (rule init_missing)
qed

lemma init_returns:
  assumes "init getenv AzureOpenAI = Inr svc"
  shows "getenv ''4.1_OPENAI_ENDPOINT'' = Some (endpoint svc) \<and> endpoint svc \<noteq> []
       \<and> getenv ''4.1_OPENAI_API_KEY'' = Some (api_key svc) \<and> api_key svc \<noteq> []
       \<and> getenv ''4.1_OPENAI_DEPLOYMENT_NAME'' = Some (deployment svc) \<and> deployment svc \<noteq> []"
  using assms
  by (auto simp: init_def Let_def truthy_def split: if_splits option.splits sum.splits)

lemma offline_not_configuration_error: "offline e k v \<noteq> Inl configuration_error"
  by (simp add: offline_def configuration_error_def)

text \<open>
  C6 says that construction raises exactly when a value is absent. An environment in
  which all three variables are set, the endpoint to the empty string, still makes it
  raise: line 21 tests the values for truth, and the empty string is false.
\<close>

theorem init_empty_value_counterexample:
  "[''4.1_OPENAI_ENDPOINT'' \<mapsto> '''', ''4.1_OPENAI_API_KEY'' \<mapsto> ''secret'',
    ''4.1_OPENAI_DEPLOYMENT_NAME'' \<mapsto> ''gpt-4.1''] ''4.1_OPENAI_ENDPOINT'' = Some ''''
   \<and> [''4.1_OPENAI_ENDPOINT'' \<mapsto> '''', ''4.1_OPENAI_API_KEY'' \<mapsto> ''secret'',
    ''4.1_OPENAI_DEPLOYMENT_NAME'' \<mapsto> ''gpt-4.1''] ''4.1_OPENAI_API_KEY'' = Some ''secret''
   \<and> [''4.1_OPENAI_ENDPOINT'' \<mapsto> '''', ''4.1_OPENAI_API_KEY'' \<mapsto> ''secret'',
    ''4.1_OPENAI_DEPLOYMENT_NAME'' \<mapsto> ''gpt-4.1''] ''4.1_OPENAI_DEPLOYMENT_NAME'' = Some ''gpt-4.1''
   \<and> init [''4.1_OPENAI_ENDPOINT'' \<mapsto> '''', ''4.1_OPENAI_API_KEY'' \<mapsto> ''secret'',
    ''4.1_OPENAI_DEPLOYMENT_NAME'' \<mapsto> ''gpt-4.1''] offline
      = Inl (Exn ValueError ''Missing Azure OpenAI configuration. Please check your .env file.'' None)"
  by (simp add: init_def Let_def truthy_def)

text \<open>
  C6, as the code has it. Whatever the client constructor does, construction raises the
  configuration error when one of the three values is unset or is the empty string.
  When all three are set and not empty, the check passes and construction is the call
  of the client constructor: it raises what the constructor raises, and otherwise
  returns a service holding the three values. So, the constructor never raising the
  configuration error itself, construction raises that error exactly when a value is
  unset or empty. A service that was constructed holds three values that are not
  empty, and no later call raises the configuration error: what the analysis raises is
  the exception of line 95, and the health check raises nothing.
\<close>

theorem init_raises_iff_missing_or_empty:
  "(getenv ''4.1_OPENAI_ENDPOINT'' \<in> {None, Some ''''}
      \<or> getenv ''4.1_OPENAI_API_KEY'' \<in> {None, Some ''''}
      \<or> getenv ''4.1_OPENAI_DEPLOYMENT_NAME'' \<in> {None, Some ''''} \<longrightarrow>
    init getenv AzureOpenAI = Inl configuration_error)
   \<and> (\<forall>e k d. getenv ''4.1_OPENAI_ENDPOINT'' = Some e \<and> e \<noteq> []
          \<and> getenv ''4.1_OPENAI_API_KEY'' = Some k \<and> k \<noteq> []
          \<and> getenv ''4.1_OPENAI_DEPLOYMENT_NAME'' = Some d \<and> d \<noteq> [] \<longrightarrow>
        init getenv AzureOpenAI =
          (case AzureOpenAI e k ''2024-04-01-preview'' of
             Inl raised \<Rightarrow> Inl raised
           | Inr built \<Rightarrow>
               Inr \<lparr>endpoint = e, api_key = k, deployment = d,
                    api_version = ''2024-04-01-preview'', client = built\<rparr>))
   \<and> ((\<forall>e k v. AzureOpenAI e k v \<noteq> Inl configuration_error) \<longrightarrow>
        (init getenv AzureOpenAI = Inl configuration_error) =
          (getenv ''4.1_OPENAI_ENDPOINT'' \<in> {None, Some ''''}
           \<or> getenv ''4.1_OPENAI_API_KEY'' \<in> {None, Some ''''}
           \<or> getenv ''4.1_OPENAI_DEPLOYMENT_NAME'' \<in> {None, Some ''''}))
   \<and> (\<forall>svc. init getenv AzureOpenAI = Inr svc \<longrightarrow>
         getenv ''4.1_OPENAI_ENDPOINT'' = Some (endpoint svc) \<and> endpoint svc \<noteq> []
       \<and> getenv ''4.1_OPENAI_API_KEY'' = Some (api_key svc) \<and> api_key svc \<noteq> []
       \<and> getenv ''4.1_OPENAI_DEPLOYMENT_NAME'' = Some (deployment svc) \<and> deployment svc \<noteq> [])
   \<and> (\<forall>e. result (analyze_building_risks loads any_service data) = Inl e \<longrightarrow>
         exn_type e = Exception \<and> e \<noteq> configuration_error)
   \<and> (\<forall>e. result (health_check any_service) \<noteq> Inl e)"
proof -
  have missing: "getenv ''4.1_OPENAI_ENDPOINT'' \<in> {None, Some ''''}
      \<or> getenv ''4.1_OPENAI_API_KEY'' \<in> {None, Some ''''}
      \<or> getenv ''4.1_OPENAI_DEPLOYMENT_NAME'' \<in> {None, Some ''''} \<longrightarrow>
    init getenv AzureOpenAI = Inl configuration_error"
    by (blast intro: init_missing)
  have present: "\<forall>e k d. getenv ''4.1_OPENAI_ENDPOINT'' = Some e \<and> e \<noteq> []
          \<and> getenv ''4.1_OPENAI_API_KEY'' = Some k \<and> k \<noteq> []
          \<and> getenv ''4.1_OPENAI_DEPLOYMENT_NAME'' = Some d \<and> d \<noteq> [] \<longrightarrow>
        init getenv AzureOpenAI =
          (case AzureOpenAI e k ''2024-04-01-preview'' of
             Inl raised \<Rightarrow> Inl raised
           | Inr built \<Rightarrow>
               Inr \<lparr>endpoint = e, api_key = k, deployment = d,
                    api_version = ''2024-04-01-preview'', client = built\<rparr>)"
    by (blast intro: init_present)
  have iff: "(\<forall>e k v. AzureOpenAI e k v \<noteq> Inl configuration_error) \<longrightarrow>
        (init getenv AzureOpenAI = Inl configuration_error) =
          (getenv ''4.1_OPENAI_ENDPOINT'' \<in> {None, Some ''''}
           \<or> getenv ''4.1_OPENAI_API_KEY'' \<in> {None, Some ''''}
           \<or> getenv ''4.1_OPENAI_DEPLOYMENT_NAME'' \<in> {None, Some ''''})"
    by (rule impI) (rule init_raises_iff)
  have constructed: "\<forall>svc. init getenv AzureOpenAI = Inr svc \<longrightarrow>
         getenv ''4.1_OPENAI_ENDPOINT'' = Some (endpoint svc) \<and> endpoint svc \<noteq> []
       \<and> getenv ''4.1_OPENAI_API_KEY'' = Some (api_key svc) \<and> api_key svc \<noteq> []
       \<and> getenv ''4.1_OPENAI_DEPLOYMENT_NAME'' = Some (deployment svc) \<and> deployment svc \<noteq> []"
    by (blast dest: init_returns)
  have deferred: "\<forall>e. result (analyze_building_risks loads any_service data) = Inl e \<longrightarrow>
         exn_type e = Exception \<and> e \<noteq> configuration_error"
    by (auto dest!: raised_is_wrapped simp: analysis_failed_def configuration_error_def)
  have health: "\<forall>e. result (health_check any_service) \<noteq> Inl e"
    by (simp add: health_check_def split: sum.split)
  show ?thesis
    apply (intro conjI)
         apply (rule missing)
        apply (rule present)
       apply (rule iff)
      apply (rule constructed)
     apply (rule deferred)
    apply (rule health)
    done
qed

theorem init_raises_iff_missing_or_empty_witness:
  "(\<forall>e k v. offline e k v \<noteq> Inl configuration_error)
   \<and> init [''4.1_OPENAI_ENDPOINT'' \<mapsto> ''https://example.openai.azure.com/'',
         ''4.1_OPENAI_DEPLOYMENT_NAME'' \<mapsto> ''gpt-4.1''] offline
     = Inl configuration_error
   \<and> init [''4.1_OPENAI_ENDPOINT'' \<mapsto> ''https://example.openai.azure.com/'',
         ''4.1_OPENAI_API_KEY'' \<mapsto> '''',
         ''4.1_OPENAI_DEPLOYMENT_NAME'' \<mapsto> ''gpt-4.1''] offline
     = Inl configuration_error
   \<and> init [''4.1_OPENAI_ENDPOINT'' \<mapsto> ''https://example.openai.azure.com/'',
         ''4.1_OPENAI_API_KEY'' \<mapsto> ''secret'',
         ''4.1_OPENAI_DEPLOYMENT_NAME'' \<mapsto> ''gpt-4.1''] offline
     \<noteq> Inl configuration_error
   \<and> (\<exists>svc. init [''4.1_OPENAI_ENDPOINT'' \<mapsto> ''https://example.openai.azure.com/'',
         ''4.1_OPENAI_API_KEY'' \<mapsto> ''secret'',
         ''4.1_OPENAI_DEPLOYMENT_NAME'' \<mapsto> ''gpt-4.1''] offline = Inr svc
        \<and> endpoint svc = ''https://example.openai.azure.com/''
        \<and> api_key svc = ''secret''
        \<and> deployment svc = ''gpt-4.1'')
   \<and> init [''4.1_OPENAI_ENDPOINT'' \<mapsto> [CHR ''h'', CHR ''t'', CHR ''t'', CHR ''p'', CHR 0x0A],
         ''4.1_OPENAI_API_KEY'' \<mapsto> ''secret'',
         ''4.1_OPENAI_DEPLOYMENT_NAME'' \<mapsto> ''gpt-4.1''] offline
     = Inl (Exn (OtherError ''InvalidURL'') ''Invalid non-printable ASCII character in URL'' None)"
proof -
  let ?unset = "[''4.1_OPENAI_ENDPOINT'' \<mapsto> ''https://example.openai.azure.com/'',
         ''4.1_OPENAI_DEPLOYMENT_NAME'' \<mapsto> ''gpt-4.1'']"
  let ?blank = "[''4.1_OPENAI_ENDPOINT'' \<mapsto> ''https://example.openai.azure.com/'',
         ''4.1_OPENAI_API_KEY'' \<mapsto> '''',
         ''4.1_OPENAI_DEPLOYMENT_NAME'' \<mapsto> ''gpt-4.1'']"
  let ?full = "[''4.1_OPENAI_ENDPOINT'' \<mapsto> ''https://example.openai.azure.com/'',
         ''4.1_OPENAI_API_KEY'' \<mapsto> ''secret'',
         ''4.1_OPENAI_DEPLOYMENT_NAME'' \<mapsto> ''gpt-4.1'']"
  let ?broken = "[''4.1_OPENAI_ENDPOINT'' \<mapsto> [CHR ''h'', CHR ''t'', CHR ''t'', CHR ''p'', CHR 0x0A],
         ''4.1_OPENAI_API_KEY'' \<mapsto> ''secret'',
         ''4.1_OPENAI_DEPLOYMENT_NAME'' \<mapsto> ''gpt-4.1'']"
  have o: "\<forall>e k v. offline e k v \<noteq> Inl configuration_error"
    by (simp add: offline_not_configuration_error)
  have a: "init ?unset offline = Inl configuration_error"
    using init_raises_iff_missing_or_empty [of ?unset offline, THEN conjunct1] by simp
  have b: "init ?blank offline = Inl configuration_error"
    using init_raises_iff_missing_or_empty [of ?blank offline, THEN conjunct1] by simp
  have c: "init ?full offline \<noteq> Inl configuration_error"
    using init_raises_iff_missing_or_empty
        [of ?full offline, THEN conjunct2, THEN conjunct2, THEN conjunct1] o
    by simp
  have "init ?full offline =
      (case offline ''https://example.openai.azure.com/'' ''secret'' ''2024-04-01-preview'' of
         Inl raised \<Rightarrow> Inl raised
       | Inr built \<Rightarrow>
           Inr \<lparr>endpoint = ''https://example.openai.azure.com/'', api_key = ''secret'',
                deployment = ''gpt-4.1'', api_version = ''2024-04-01-preview'',
                client = built\<rparr>)"
    using init_raises_iff_missing_or_empty [of ?full offline, THEN conjunct2, THEN conjunct1]
    by simp
  then have d: "\<exists>svc. init ?full offline = Inr svc
        \<and> endpoint svc = ''https://example.openai.azure.com/''
        \<and> api_key svc = ''secret''
        \<and> deployment svc = ''gpt-4.1''"
    by (simp add: offline_def)
  have "init ?broken offline =
      (case offline [CHR ''h'', CHR ''t'', CHR ''t'', CHR ''p'', CHR 0x0A] ''secret''
              ''2024-04-01-preview'' of
         Inl raised \<Rightarrow> Inl raised
       | Inr built \<Rightarrow>
           Inr \<lparr>endpoint = [CHR ''h'', CHR ''t'', CHR ''t'', CHR ''p'', CHR 0x0A],
                api_key = ''secret'', deployment = ''gpt-4.1'',
                api_version = ''2024-04-01-preview'', client = built\<rparr>)"
    using init_raises_iff_missing_or_empty [of ?broken offline, THEN conjunct2, THEN conjunct1]
    by simp
  then have e: "init ?broken offline =
      Inl (Exn (OtherError ''InvalidURL'') ''Invalid non-printable ASCII character in URL'' None)"
    by (simp add: offline_def)
  show ?thesis
    apply (intro conjI)
         apply (rule o)
        apply (rule a)
       apply (rule b)
      apply (rule c)
     apply (rule d)
    apply (rule e)
    done
qed

section \<open>The parameters of the model call\<close>

text \<open>
  C7. Every request the analysis sends to the model asks for at most 2000 tokens when
  there is one image and at most 3000 when there are more, with temperature 0.3 and the
  deployment the service was configured with.
\<close>

theorem token_budget_and_sampling:
  assumes "req \<in> set (calls (analyze_building_risks loads svc data))"
  shows "(image_count data = 1 \<longrightarrow> max_tokens req = 2000)
       \<and> (image_count data > 1 \<longrightarrow> max_tokens req = 3000)
       \<and> temperature req = 0.3
       \<and> model req = deployment svc"
proof -
  from assms obtain user_content
    where "req = chat_request svc (image_count data) user_content"
    by (auto dest: calls_are_chat_requests)
  then show ?thesis
    by (simp add: chat_request_def)
qed

theorem token_budget_and_sampling_witness:
  "calls (analyze_building_risks stub_loads (stub_service (reply ''{}'')) (Images [png]))
     = [chat_request (stub_service (reply ''{}'')) 1 [TextPart (get_user_prompt 1), image_block png]]
   \<and> max_tokens (chat_request (stub_service (reply ''{}'')) 1
        [TextPart (get_user_prompt 1), image_block png]) = 2000
   \<and> temperature (chat_request (stub_service (reply ''{}'')) 1
        [TextPart (get_user_prompt 1), image_block png]) = 0.3
   \<and> model (chat_request (stub_service (reply ''{}'')) 1
        [TextPart (get_user_prompt 1), image_block png]) = ''gpt-4.1''
   \<and> calls (analyze_building_risks stub_loads (stub_service (reply ''{}''))
        (Images [png, png, png]))
     = [chat_request (stub_service (reply ''{}'')) 3
          [TextPart (get_user_prompt 3), image_block png, image_block png, image_block png]]
   \<and> max_tokens (chat_request (stub_service (reply ''{}'')) 3
        [TextPart (get_user_prompt 3), image_block png, image_block png, image_block png]) = 3000"
proof -
  let ?svc = "stub_service (reply ''{}'')"
  let ?one = "chat_request ?svc 1 [TextPart (get_user_prompt 1), image_block png]"
  let ?three = "chat_request ?svc 3
      [TextPart (get_user_prompt 3), image_block png, image_block png, image_block png]"
  have one: "calls (analyze_building_risks stub_loads ?svc (Images [png])) = [?one]"
    by (rule sent_png)
  have three: "calls (analyze_building_risks stub_loads ?svc (Images [png, png, png])) = [?three]"
    using calls_has_keys [of "Images [png, png, png]" stub_loads ?svc]
    by (simp add: normalize_input_def has_keys_png)
  have n: "image_count (Images [png]) = 1" "image_count (Images [png, png, png]) = 3"
    by (simp_all add: image_count_def normalize_input_def)
  have d: "deployment ?svc = ''gpt-4.1''"
    by (simp add: stub_service_def)
  have a: "max_tokens ?one = 2000 \<and> temperature ?one = 0.3 \<and> model ?one = ''gpt-4.1''"
    using token_budget_and_sampling [of ?one stub_loads ?svc "Images [png]"]
    by (simp only: one n d list.set insertI1 simp_thms)
  have b: "max_tokens ?three = 3000"
    using token_budget_and_sampling [of ?three stub_loads ?svc "Images [png, png, png]"]
    by (simp add: three n)
  from one three a b show ?thesis by blast
qed

section \<open>The user prompt\<close>



section \<open>Any number of images\<close>

text \<open>
  C9. For a list of images that have the two keys, of any length, zero and more than
  ten included, the analysis sends exactly one request: the system prompt and the user
  prompt for that length, and one block per image. Whatever it raises was raised by
  the model call or while reading its response, never before the call; and when the
  reply is not JSON, the fallback for that length is built.
\<close>

theorem any_image_count_reaches_the_model:
  assumes "list_all has_keys images"
  shows "calls (analyze_building_risks loads svc (Images images)) =
           [chat_request svc (int (length images))
              (TextPart (get_user_prompt (int (length images))) # map image_block images)]
       \<and> (\<forall>e. result (analyze_building_risks loads svc (Images images)) = Inl e \<longrightarrow>
            (\<exists>cause. e = analysis_failed cause
               \<and> (client svc
                     (chat_request svc (int (length images))
                        (TextPart (get_user_prompt (int (length images)))
                           # map image_block images)) = Inl cause
                  \<or> (\<exists>resp. client svc
                     (chat_request svc (int (length images))
                        (TextPart (get_user_prompt (int (length images)))
                           # map image_block images)) = Inr resp
                       \<and> read_response loads resp (int (length images)) = Inl cause))))
       \<and> (\<forall>content. decode_error (loads (json_match content)) \<longrightarrow>
            parse_content loads content (int (length images)) =
              Inr (create_fallback_response content (int (length images))))"
proof -
  let ?req = "chat_request svc (int (length images))
      (TextPart (get_user_prompt (int (length images))) # map image_block images)"
  have sent: "calls (analyze_building_risks loads svc (Images images)) = [?req]"
    using calls_has_keys [of "Images images" loads svc] assms
    by (simp add: normalize_input_list)
  have after: "\<forall>e. result (analyze_building_risks loads svc (Images images)) = Inl e \<longrightarrow>
            (\<exists>cause. e = analysis_failed cause
               \<and> (client svc ?req = Inl cause
                  \<or> (\<exists>resp. client svc ?req = Inr resp
                       \<and> read_response loads resp (int (length images)) = Inl cause)))"
    by (auto simp: result_sent [OF sent] image_count_list split: sum.splits)
  have fallback: "\<forall>content. decode_error (loads (json_match content)) \<longrightarrow>
            parse_content loads content (int (length images)) =
              Inr (create_fallback_response content (int (length images)))"
    by (simp add: parse_content_decode_error)
  show ?thesis
    apply (intro conjI)
      apply (rule sent)
     apply (rule after)
    apply (rule fallback)
    done
qed

theorem any_image_count_reaches_the_model_witness:
  "calls (analyze_building_risks stub_loads (stub_service (reply ''no json'')) (Images []))
     = [chat_request (stub_service (reply ''no json'')) 0 [TextPart (get_user_prompt 0)]]
   \<and> result (analyze_building_risks stub_loads (stub_service (reply ''no json'')) (Images []))
     = Inr (create_fallback_response ''no json'' 0)
   \<and> length (replicate 11 png) = 11
   \<and> calls (analyze_building_risks stub_loads (stub_service (reply ''no json''))
        (Images (replicate 11 png)))
     = [chat_request (stub_service (reply ''no json'')) 11
          (TextPart (get_user_prompt 11) # replicate 11 (image_block png))]
   \<and> result (analyze_building_risks stub_loads (stub_service (reply ''no json''))
        (Images (replicate 11 png)))
     = Inr (create_fallback_response ''no json'' 11)"
proof -
  let ?svc = "stub_service (reply ''no json'')"
  have none: "list_all has_keys []" by simp
  have eleven: "list_all has_keys (replicate 11 png)"
    by (simp add: list_all_iff has_keys_png)
  have m: "json_match ''no json'' = []" by code_simp
  have p: "parse_content stub_loads ''no json'' n = Inr (create_fallback_response ''no json'' n)" for n
    by (simp add: parse_content_def m)
  have r: "read_response stub_loads \<lparr>resp_error = None, resp_choices = [Some ''no json'']\<rparr> n
      = Inr (create_fallback_response ''no json'' n)" for n
    by (simp add: read_response_def truthy_def p)
  have c: "client ?svc req = Inr \<lparr>resp_error = None, resp_choices = [Some ''no json'']\<rparr>" for req
    by (simp add: stub_service_def reply_def)
  note zero = any_image_count_reaches_the_model [OF none, of stub_loads ?svc]
  note many = any_image_count_reaches_the_model [OF eleven, of stub_loads ?svc]
  have a: "calls (analyze_building_risks stub_loads ?svc (Images []))
     = [chat_request ?svc 0 [TextPart (get_user_prompt 0)]]"
    using zero by simp
  have b: "calls (analyze_building_risks stub_loads ?svc (Images (replicate 11 png)))
     = [chat_request ?svc 11 (TextPart (get_user_prompt 11) # replicate 11 (image_block png))]"
    using many by simp
  have a': "result (analyze_building_risks stub_loads ?svc (Images []))
     = Inr (create_fallback_response ''no json'' 0)"
    using result_sent [OF a] by (simp add: c r image_count_list)
  have b': "result (analyze_building_risks stub_loads ?svc (Images (replicate 11 png)))
     = Inr (create_fallback_response ''no json'' 11)"
    using result_sent [OF b] by (simp add: c r image_count_list)
  from a a' b b' show ?thesis by simp
qed

section \<open>An argument that is not a list\<close>

lemma system_prompt_one:
  "\<exists>rest. get_system_prompt 1 =
     ''You are an expert insurance underwriter specializing in building risk assessment. '' @ nl
     @ ''You are analyzing 1 image of the same building from different angles/perspectives to provide a comprehensive risk assessment.'' @ nl
     @ nl
     @ ''Analyze the provided building image and identify potential risks.'' @ rest"
  unfolding get_system_prompt_def
  apply (simp only: concat.simps str_int_1 append_assoc)
  apply (simp del: concat.simps)
  done

text \<open>
  C10. Given one image where a list is expected, the analysis does exactly what it does
  for the list of that one image: the count is one, the user prompt is the sentence for
  a single image, the system prompt speaks of one image, any request it sends asks for
  at most 2000 tokens, and for an image with the two keys the request is sent.
\<close>

theorem single_image_is_normalized:
  "analyze_building_risks loads svc (NotAList img) = analyze_building_risks loads svc (Images [img])
   \<and> image_count (NotAList img) = 1
   \<and> get_user_prompt (image_count (NotAList img)) = ''Please analyze this building image for insurance underwriting risk assessment. Provide a comprehensive evaluation of all visible risk factors.''
   \<and> (\<exists>rest. get_system_prompt (image_count (NotAList img)) =
         ''You are an expert insurance underwriter specializing in building risk assessment. '' @ nl
         @ ''You are analyzing 1 image of the same building from different angles/perspectives to provide a comprehensive risk assessment.'' @ nl
         @ nl
         @ ''Analyze the provided building image and identify potential risks.'' @ rest)
   \<and> (\<forall>req. req \<in> set (calls (analyze_building_risks loads svc (NotAList img))) \<longrightarrow>
         max_tokens req = 2000)
   \<and> (has_keys img \<longrightarrow>
         calls (analyze_building_risks loads svc (NotAList img)) =
           [chat_request svc 1 [TextPart (get_user_prompt 1), image_block img]])"
proof -
  have same: "analyze_building_risks loads svc (NotAList img) =
      analyze_building_risks loads svc (Images [img])"
    by (simp add: analyze_building_risks_def analyze_attempt_def normalize_input_def)
  have n: "image_count (NotAList img) = 1"
    by (simp add: image_count_def normalize_input_def)
  have prompt: "get_user_prompt (image_count (NotAList img)) = ''Please analyze this building image for insurance underwriting risk assessment. Provide a comprehensive evaluation of all visible risk factors.''"
    by (simp add: n get_user_prompt_def)
  have system: "\<exists>rest. get_system_prompt (image_count (NotAList img)) =
         ''You are an expert insurance underwriter specializing in building risk assessment. '' @ nl
         @ ''You are analyzing 1 image of the same building from different angles/perspectives to provide a comprehensive risk assessment.'' @ nl
         @ nl
         @ ''Analyze the provided building image and identify potential risks.'' @ rest"
    unfolding n by (rule system_prompt_one)
  have budget: "\<forall>req. req \<in> set (calls (analyze_building_risks loads svc (NotAList img))) \<longrightarrow>
         max_tokens req = 2000"
    by (auto dest!: calls_are_chat_requests simp: n chat_request_def)
  have sent: "has_keys img \<longrightarrow>
         calls (analyze_building_risks loads svc (NotAList img)) =
           [chat_request svc 1 [TextPart (get_user_prompt 1), image_block img]]"
    using calls_has_keys [of "NotAList img" loads svc]
    by (simp add: normalize_input_def)
  show ?thesis
    apply (intro conjI)
         apply (rule same)
        apply (rule n)
       apply (rule prompt)
      apply (rule system)
     apply (rule budget)
    apply (rule sent)
    done
qed

theorem single_image_is_normalized_witness:
  "has_keys png
   \<and> calls (analyze_building_risks stub_loads (stub_service (reply ''{}'')) (NotAList png))
     = [chat_request (stub_service (reply ''{}'')) 1 [TextPart (get_user_prompt 1), image_block png]]
   \<and> max_tokens (chat_request (stub_service (reply ''{}'')) 1
        [TextPart (get_user_prompt 1), image_block png]) = 2000
   \<and> result (analyze_building_risks stub_loads (stub_service (reply ''{}'')) (NotAList png))
     = Inr (JDict [])"
proof -
  let ?svc = "stub_service (reply ''{}'')"
  let ?req = "chat_request ?svc 1 [TextPart (get_user_prompt 1), image_block png]"
  note t = single_image_is_normalized [of stub_loads ?svc png]
  have sent: "calls (analyze_building_risks stub_loads ?svc (NotAList png)) = [?req]"
    using t has_keys_png by blast
  have "?req \<in> set (calls (analyze_building_risks stub_loads ?svc (NotAList png)))"
    by (simp only: sent list.set insertI1)
  with t have budget: "max_tokens ?req = 2000"
    by blast
  have m: "json_match ''{}'' = ''{}''" by code_simp
  have r: "read_response stub_loads \<lparr>resp_error = None, resp_choices = [Some ''{}'']\<rparr> n
      = Inr (JDict [])" for n
    by (simp add: read_response_def truthy_def parse_content_def m stub_loads_def)
  have c: "client ?svc req = Inr \<lparr>resp_error = None, resp_choices = [Some ''{}'']\<rparr>" for req
    by (simp add: stub_service_def reply_def)
  have res: "result (analyze_building_risks stub_loads ?svc (NotAList png)) = Inr (JDict [])"
    using result_sent [OF sent] by (simp add: c r)
  from has_keys_png sent budget res show ?thesis by blast
qed

end
